theory Spec2Isabelle
  imports Main "HOL-Library.Sublist"
begin

section \<open>The generation gateway of app.py\<close>

text \<open>
  The module keeps three mutable globals (\<open>ollama_available\<close>, \<open>hf_pipeline\<close>,
  \<open>GENERATION_METHOD\<close>) and one flag fixed at import time (\<open>TRANSFORMERS_AVAILABLE\<close>).
  Its functions talk to three outside parties: the Ollama client, the transformers
  library and the logger. The model passes the globals explicitly, takes the behaviour of
  the outside parties as a record of functions, and writes every exception they may raise
  as the left summand of a sum, carrying the text \<open>str(e)\<close>.

  Python strings are lists of code points; the model uses \<open>string\<close>, so it speaks about
  text whose code points lie below 256.

  What the outside parties raise is taken to derive from \<open>Exception\<close>, which is what the
  \<open>except Exception\<close> clauses of the module catch. \<open>pipeline(...)\<close> returns an object or
  raises; it does not return \<open>None\<close>. Calls of the logger and of \<open>datetime\<close> do not raise.
\<close>

subsection \<open>Constants, globals and the outside world\<close>

definition OLLAMA_MODEL :: string where
  "OLLAMA_MODEL = ''gemma3:1b''"

definition HF_MODEL_FALLBACK :: string where
  "HF_MODEL_FALLBACK = ''google/gemma-2b''"

datatype level = INFO | WARNING | ERROR

text \<open>
  Calls that leave the module, recorded in call order. The source keeps no such list; it
  is the counter of the specification ("incremented only on actual construction"),
  extended to the other outside calls and to the entry of \<open>initialize_hf_pipeline\<close>.
\<close>

datatype call =
    CallOllamaChat string
  | CallInitialize
  | CallPipelineNew
  | CallHfPipeline string

text \<open>The object returned by \<open>pipeline(...)\<close> is opaque; a number stands for its identity.\<close>

type_synonym handle = nat

record globals =
  ollama_available :: bool
  hf_pipeline :: "handle option"
  GENERATION_METHOD :: string
  TRANSFORMERS_AVAILABLE :: bool
  logged :: "(level \<times> string) list"
  calls :: "call list"

datatype json =
    JNull
  | JBool bool
  | JNum int
  | JStr string
  | JArr "json list"
  | JObj "(string \<times> json) list"

text \<open>Exceptions the interpreter itself raises inside a request handler.\<close>

datatype py_fault =
    NoAttributeGet json
  | NotSliceable json

record env =
  ollama_list :: "string + unit"
  ollama_chat :: "string \<Rightarrow> string + string"
  pipeline_new :: "string + handle"
  hf_invoke :: "handle \<Rightarrow> string \<Rightarrow> string + string"
  py_bool :: "handle \<Rightarrow> bool"
  now :: string
  py_str :: "json \<Rightarrow> string"
  exc_text :: "py_fault \<Rightarrow> string"

text \<open>
  \<^item> \<open>ollama_list\<close>: \<open>ollama.list()\<close>, which returns or raises;
  \<^item> \<open>ollama_chat p\<close>: \<open>ollama.chat(model=OLLAMA_MODEL, messages=[...p...])['message']['content']\<close>;
  \<^item> \<open>pipeline_new\<close>: \<open>pipeline("text-generation", model=HF_MODEL_FALLBACK, ...)\<close>, which
    returns a pipeline object or raises;
  \<^item> \<open>hf_invoke h p\<close>: \<open>h(p, max_length=700, num_return_sequences=1, truncation=True)[0]['generated_text']\<close>;
  \<^item> \<open>py_bool h\<close>: the truth value Python gives the object in \<open>if hf_pipeline:\<close>;
  \<^item> \<open>now\<close>: \<open>datetime.now().strftime("%Y-%m-%d %H:%M:%S")\<close>;
  \<^item> \<open>py_str v\<close>: how an f-string renders a JSON value that is not a string;
  \<^item> \<open>exc_text f\<close>: the text of the exception the interpreter raises at fault \<open>f\<close>.
\<close>

definition logging :: "level \<Rightarrow> string \<Rightarrow> globals \<Rightarrow> globals" where
  "logging l m s = s\<lparr>logged := logged s @ [(l, m)]\<rparr>"

definition record_call :: "call \<Rightarrow> globals \<Rightarrow> globals" where
  "record_call c s = s\<lparr>calls := calls s @ [c]\<rparr>"

text \<open>The globals as the module body leaves them (lines 16 to 41).\<close>

definition module_globals :: "bool \<Rightarrow> globals" where
  "module_globals transformers_imported =
     \<lparr>ollama_available = False, hf_pipeline = None, GENERATION_METHOD = ''None'',
      TRANSFORMERS_AVAILABLE = transformers_imported, logged = [], calls = []\<rparr>"

subsection \<open>initialize_hf_pipeline\<close>

definition initialize_hf_pipeline :: "env \<Rightarrow> globals \<Rightarrow> bool \<times> globals" where
  "initialize_hf_pipeline e s0 =
     (let s = record_call CallInitialize s0 in
      if \<not> TRANSFORMERS_AVAILABLE s then
        (False,
         (logging ERROR
            ''Transformers library not installed. Cannot initialize Hugging Face pipeline.'' s)
           \<lparr>GENERATION_METHOD := ''Error: Transformers Missing''\<rparr>)
      else if hf_pipeline s = None then
        (let s1 = logging INFO
                    (''Initializing Hugging Face fallback pipeline with model: ''
                       @ HF_MODEL_FALLBACK @ ''...'') s;
             s2 = record_call CallPipelineNew s1
         in case pipeline_new e of
              Inr h \<Rightarrow>
                (True,
                 (logging INFO ''Hugging Face pipeline initialized successfully.''
                    (s2\<lparr>hf_pipeline := Some h\<rparr>))
                   \<lparr>GENERATION_METHOD := ''Hugging Face''\<rparr>)
            | Inl ex \<Rightarrow>
                (False,
                 (logging ERROR
                    (''Failed to initialize Hugging Face pipeline ('' @ HF_MODEL_FALLBACK
                       @ ''): '' @ ex) s2)
                   \<lparr>hf_pipeline := None, GENERATION_METHOD := ''Error: HF Init Failed''\<rparr>))
      else (True, s))"

subsection \<open>generate_text\<close>

text \<open>
  \<open>str.lstrip()\<close> drops the leading characters for which \<open>str.isspace\<close> holds; below 256
  these are the code points 9 to 13, 28 to 32, 133 and 160.
\<close>

definition py_isspace :: "char \<Rightarrow> bool" where
  "py_isspace c =
     (let n = (of_char c :: nat)
      in (9 \<le> n \<and> n \<le> 13) \<or> (28 \<le> n \<and> n \<le> 32) \<or> n = 133 \<or> n = 160)"

definition lstrip :: "string \<Rightarrow> string" where
  "lstrip t = dropWhile py_isspace t"

text \<open>Lines 114 and 115.\<close>

definition strip_echo :: "string \<Rightarrow> string \<Rightarrow> string" where
  "strip_echo prompt generated =
     (if prefix prompt generated then lstrip (drop (length prompt) generated)
      else generated)"

text \<open>The three locals of \<open>generate_text\<close> as the \<open>try\<close> statement leaves them.\<close>

record outcome =
  source :: string
  result_text :: string
  error_message :: "string option"

definition ollama_source :: string where
  "ollama_source = ''Ollama ('' @ OLLAMA_MODEL @ '')''"

definition hf_source :: string where
  "hf_source = ''Hugging Face ('' @ HF_MODEL_FALLBACK @ '')''"

definition msg_init_failed :: string where
  "msg_init_failed =
     ''Error: Failed to initialize Hugging Face fallback model ('' @ HF_MODEL_FALLBACK @ '').''"

definition msg_pipeline_absent :: string where
  "msg_pipeline_absent =
     ''Error: Hugging Face pipeline is not available after initialization attempt.''"

definition msg_no_transformers :: string where
  "msg_no_transformers =
     ''Error: Ollama is unavailable and the Transformers library is not installed. Cannot generate text.''"

text \<open>The \<open>except Exception as e\<close> clause, lines 127 to 130.\<close>

definition on_exception :: "string \<Rightarrow> string \<Rightarrow> string \<Rightarrow> globals \<Rightarrow> outcome \<times> globals" where
  "on_exception src tool_name ex s =
     (\<lparr>source = ''Error'', result_text = '''',
       error_message = Some (''Error during text generation using '' @ src @ '': '' @ ex)\<rparr>,
      logging ERROR
        (''Error during text generation via '' @ src @ '' for '' @ tool_name @ '': '' @ ex) s)"

text \<open>Python's \<open>not error_message\<close>: true of \<open>None\<close> and of the empty string.\<close>

definition not_message :: "string option \<Rightarrow> bool" where
  "not_message m = (case m of None \<Rightarrow> True | Some t \<Rightarrow> t = [])"

text \<open>
  Python's \<open>if hf_pipeline:\<close>, which passes for an object that is not \<open>None\<close> and that
  Python counts as true; the result is the object the branch then calls.
\<close>

definition usable_pipeline :: "env \<Rightarrow> globals \<Rightarrow> handle option" where
  "usable_pipeline e s =
     (case hf_pipeline s of
        None \<Rightarrow> None
      | Some h \<Rightarrow> (if py_bool e h then Some h else None))"

text \<open>Lines 100 to 105: the locals \<open>source\<close> and \<open>error_message\<close> after the lazy initialisation.\<close>

definition ensure_pipeline :: "env \<Rightarrow> globals \<Rightarrow> (string \<times> string option) \<times> globals" where
  "ensure_pipeline e s =
     (if hf_pipeline s = None then
        (case initialize_hf_pipeline e s of
           (True, s') \<Rightarrow> ((hf_source, None), s')
         | (False, s') \<Rightarrow> ((''Error'', Some msg_init_failed), logging ERROR msg_init_failed s'))
      else ((hf_source, None), s))"

text \<open>The \<open>try\<close> statement, lines 89 to 130.\<close>

definition attempt :: "env \<Rightarrow> string \<Rightarrow> string \<Rightarrow> globals \<Rightarrow> outcome \<times> globals" where
  "attempt e prompt tool_name s =
     (if ollama_available s then
        (let s1 = logging INFO
                    (''Attempting generation via '' @ ollama_source @ '' for '' @ tool_name @ ''...'') s;
             s2 = record_call (CallOllamaChat prompt) s1
         in case ollama_chat e prompt of
              Inl ex \<Rightarrow> on_exception ollama_source tool_name ex s2
            | Inr content \<Rightarrow>
                (\<lparr>source = ollama_source, result_text = content, error_message = None\<rparr>,
                 logging INFO
                   (''Received response from '' @ ollama_source @ '' for '' @ tool_name @ ''.'') s2))
      else if TRANSFORMERS_AVAILABLE s then
        (let s1 = logging INFO
                    (''Ollama unavailable. Attempting generation via '' @ hf_source @ '' for ''
                       @ tool_name @ ''...'') s
         in case ensure_pipeline e s1 of
              ((src, err), s2) \<Rightarrow>
                (case usable_pipeline e s2 of
                   Some h \<Rightarrow>
                     (let s3 = record_call (CallHfPipeline prompt) s2
                      in case hf_invoke e h prompt of
                           Inl ex \<Rightarrow> on_exception src tool_name ex s3
                         | Inr generated \<Rightarrow>
                             (\<lparr>source = src, result_text = strip_echo prompt generated,
                               error_message = err\<rparr>,
                              logging INFO
                                (''Received response from '' @ src @ '' for '' @ tool_name @ ''.'') s3))
                 | None \<Rightarrow>
                     (if not_message err then
                        (\<lparr>source = ''Error'', result_text = '''',
                          error_message = Some msg_pipeline_absent\<rparr>,
                         logging ERROR msg_pipeline_absent s2)
                      else (\<lparr>source = src, result_text = '''', error_message = err\<rparr>, s2))))
      else
        (\<lparr>source = ''Error'', result_text = '''', error_message = Some msg_no_transformers\<rparr>,
         logging ERROR msg_no_transformers s))"

text \<open>Lines 139 to 145.\<close>

definition fallback_info :: "globals \<Rightarrow> string" where
  "fallback_info s =
     (if prefix ''Error'' (GENERATION_METHOD s) then
        '' Fallback Status: '' @ GENERATION_METHOD s @ ''.''
      else if \<not> ollama_available s \<and> \<not> TRANSFORMERS_AVAILABLE s then
        '' Fallback attempted but Transformers library is missing.''
      else if \<not> ollama_available s \<and> hf_pipeline s = None then
        '' Fallback attempted but HF model ('' @ HF_MODEL_FALLBACK @ '') failed to initialize.''
      else '''')"

text \<open>Python's \<open>error_message or "An unknown error ..."\<close>.\<close>

definition final_error_message :: "string option \<Rightarrow> string" where
  "final_error_message m =
     (case m of
        None \<Rightarrow> ''An unknown error occurred during text generation.''
      | Some t \<Rightarrow>
          (if t = [] then ''An unknown error occurred during text generation.'' else t))"

definition end_of_report :: string where
  "end_of_report = ''--- End of Report ---''"

definition branded_result :: "string \<Rightarrow> string \<Rightarrow> string \<Rightarrow> string \<Rightarrow> string" where
  "branded_result tool_name src timestamp text =
     ''--- Wolfgank AI ['' @ tool_name @ ''] Result ('' @ src @ '' @ '' @ timestamp
       @ '') ---\<newline>\<newline>'' @ text @ ''\<newline>\<newline>'' @ end_of_report"

definition error_report :: "string \<Rightarrow> string \<Rightarrow> string \<Rightarrow> string" where
  "error_report timestamp message info =
     ''--- Wolfgank AI Error ('' @ timestamp @ '') ---\<newline>\<newline>'' @ message @ info
       @ ''\<newline>Please check logs and model availability.\<newline>\<newline>'' @ end_of_report"

text \<open>Lines 132 to 148, after the \<open>try\<close> statement.\<close>

definition format_report :: "env \<Rightarrow> string \<Rightarrow> outcome \<Rightarrow> globals \<Rightarrow> string" where
  "format_report e tool_name out s =
     (let timestamp = now e
      in if source out \<noteq> ''Error'' then
           branded_result tool_name (source out) timestamp (result_text out)
         else
           error_report timestamp (final_error_message (error_message out)) (fallback_info s))"

definition generate_text :: "env \<Rightarrow> string \<Rightarrow> string \<Rightarrow> globals \<Rightarrow> string \<times> globals" where
  "generate_text e prompt tool_name s =
     (case attempt e prompt tool_name s of
        (out, s') \<Rightarrow> (format_report e tool_name out s', s'))"

subsection \<open>Request handlers\<close>

text \<open>
  \<open>request.get_json()\<close> either raises (the left summand, with the text of the exception) or
  returns the parsed body. Numbers are integers here; an object is the list of its members
  in document order, and a repeated key takes its last value, as \<open>json.loads\<close> does.
\<close>

fun py_truthy :: "json \<Rightarrow> bool" where
  "py_truthy JNull = False"
| "py_truthy (JBool b) = b"
| "py_truthy (JNum n) = (n \<noteq> 0)"
| "py_truthy (JStr t) = (t \<noteq> [])"
| "py_truthy (JArr xs) = (xs \<noteq> [])"
| "py_truthy (JObj kvs) = (kvs \<noteq> [])"

definition dict_lookup :: "(string \<times> json) list \<Rightarrow> string \<Rightarrow> json option" where
  "dict_lookup kvs k = map_of (rev kvs) k"

text \<open>\<open>data.get(k, d)\<close>; only a dict has the method.\<close>

definition dict_get :: "(string \<times> json) list \<Rightarrow> string \<Rightarrow> json \<Rightarrow> json" where
  "dict_get kvs k d = (case dict_lookup kvs k of None \<Rightarrow> d | Some v \<Rightarrow> v)"

fun py_get :: "json \<Rightarrow> string \<Rightarrow> json \<Rightarrow> py_fault + json" where
  "py_get (JObj kvs) k d = Inr (dict_get kvs k d)"
| "py_get v k d = Inl (NoAttributeGet v)"

text \<open>A value inside an f-string.\<close>

definition fmt :: "env \<Rightarrow> json \<Rightarrow> string" where
  "fmt e v = (case v of JStr t \<Rightarrow> t | _ \<Rightarrow> py_str e v)"

text \<open>\<open>content[:1000]\<close>: strings and lists can be sliced, the other values raise.\<close>

fun slice_1000 :: "json \<Rightarrow> py_fault + json" where
  "slice_1000 (JStr t) = Inr (JStr (take 1000 t))"
| "slice_1000 (JArr xs) = Inr (JArr (take 1000 xs))"
| "slice_1000 v = Inl (NotSliceable v)"

datatype body = ErrorBody string | ResultBody string

type_synonym response = "nat \<times> body"

definition error_marker :: string where
  "error_marker = ''--- Wolfgank AI Error''"

definition quote :: string where
  "quote = [CHR 0x27]"

text \<open>The last three statements of every handler's \<open>try\<close> block.\<close>

definition wrap_result :: "string \<Rightarrow> response" where
  "wrap_result result =
     (if sublist error_marker result then (500, ErrorBody result) else (200, ResultBody result))"

text \<open>The \<open>except Exception as e\<close> clause of every handler.\<close>

definition server_error :: "string \<Rightarrow> string \<Rightarrow> globals \<Rightarrow> response \<times> globals" where
  "server_error route ex s =
     ((500, ErrorBody (''Terjadi kesalahan server: '' @ ex)),
      logging ERROR (''Error in '' @ route @ '' endpoint: '' @ ex) s)"

definition keyword_prompt :: "string \<Rightarrow> string" where
  "keyword_prompt topic =
     ''Berikan daftar 15-20 kata kunci SEO long-tail yang relevan untuk topik: '' @ quote
       @ topic @ quote
       @ ''. Kategorikan kata kunci ini (misalnya, Informatif, Navigasi, Transaksional, Komersial). Fokus pada Bahasa Indonesia. Format sebagai daftar.''"

definition keyword_hunter :: "env \<Rightarrow> string + json \<Rightarrow> globals \<Rightarrow> response \<times> globals" where
  "keyword_hunter e request_json s =
     (case request_json of
        Inl ex \<Rightarrow> server_error ''/api/keyword-hunter'' ex s
      | Inr data \<Rightarrow>
          (case py_get data ''topic'' JNull of
             Inl f \<Rightarrow> server_error ''/api/keyword-hunter'' (exc_text e f) s
           | Inr topic \<Rightarrow>
               (if \<not> py_truthy topic then ((400, ErrorBody ''Topik diperlukan.''), s)
                else
                  (case generate_text e (keyword_prompt (fmt e topic)) ''Keyword Hunter'' s of
                     (result, s') \<Rightarrow> (wrap_result result, s')))))"

definition meta_prompt :: "string \<Rightarrow> string \<Rightarrow> string" where
  "meta_prompt keywords content_head =
     ''Buatlah Judul SEO (Meta Title) yang menarik (maksimal 60 karakter) dan Deskripsi Meta (Meta Description) yang efektif (maksimal 160 karakter) dalam Bahasa Indonesia untuk konten berikut. Jika ada, pertimbangkan kata kunci ini: ''
       @ quote @ keywords @ quote @ ''.\<newline>\<newline>Konten:\<newline>'' @ content_head @ ''...''"

definition meta_master :: "env \<Rightarrow> string + json \<Rightarrow> globals \<Rightarrow> response \<times> globals" where
  "meta_master e request_json s =
     (case request_json of
        Inl ex \<Rightarrow> server_error ''/api/meta-master'' ex s
      | Inr data \<Rightarrow>
          (case py_get data ''content'' JNull of
             Inl f \<Rightarrow> server_error ''/api/meta-master'' (exc_text e f) s
           | Inr content \<Rightarrow>
               (case py_get data ''keywords'' (JStr []) of
                  Inl f \<Rightarrow> server_error ''/api/meta-master'' (exc_text e f) s
                | Inr keywords \<Rightarrow>
                    (if \<not> py_truthy content then ((400, ErrorBody ''Konten diperlukan.''), s)
                     else
                       (case slice_1000 content of
                          Inl f \<Rightarrow> server_error ''/api/meta-master'' (exc_text e f) s
                        | Inr content_head \<Rightarrow>
                            (case generate_text e
                                    (meta_prompt (fmt e keywords) (fmt e content_head))
                                    ''Meta Master'' s of
                               (result, s') \<Rightarrow> (wrap_result result, s')))))))"

definition article_prompt :: "string \<Rightarrow> string \<Rightarrow> string" where
  "article_prompt topic keywords =
     ''Tulis draf artikel blog SEO-friendly sekitar 500-700 kata dalam Bahasa Indonesia tentang topik ''
       @ quote @ topic @ quote
       @ ''. Masukkan kata kunci berikut secara alami jika memungkinkan: '' @ quote @ keywords
       @ quote @ ''. Sertakan judul, pendahuluan, beberapa subjudul (H2), dan kesimpulan.''"

definition article_forge :: "env \<Rightarrow> string + json \<Rightarrow> globals \<Rightarrow> response \<times> globals" where
  "article_forge e request_json s =
     (case request_json of
        Inl ex \<Rightarrow> server_error ''/api/article-forge'' ex s
      | Inr data \<Rightarrow>
          (case py_get data ''topic'' JNull of
             Inl f \<Rightarrow> server_error ''/api/article-forge'' (exc_text e f) s
           | Inr topic \<Rightarrow>
               (case py_get data ''keywords'' (JStr []) of
                  Inl f \<Rightarrow> server_error ''/api/article-forge'' (exc_text e f) s
                | Inr keywords \<Rightarrow>
                    (if \<not> py_truthy topic then ((400, ErrorBody ''Topik diperlukan.''), s)
                     else
                       (case generate_text e (article_prompt (fmt e topic) (fmt e keywords))
                               ''Article Forge'' s of
                          (result, s') \<Rightarrow> (wrap_result result, s'))))))"

definition simulated_analysis :: "string \<Rightarrow> string" where
  "simulated_analysis url =
     ''Analisis SEO Awal untuk '' @ url
       @ '':\<newline>- Kecepatan Muat: (Perlu alat eksternal)\<newline>- Responsif Seluler: (Perlu alat eksternal)\<newline>- Tag Judul: (Ambil dari sumber halaman jika memungkinkan)\<newline>- Deskripsi Meta: (Ambil dari sumber halaman jika memungkinkan)\<newline>- Penggunaan HTTPS: Ya\<newline>- Tautan Rusak: (Perlu pemeriksaan tautan)\<newline>\<newline>(Analisis ini disimulasikan.)''"

definition analyzer_prompt :: "string \<Rightarrow> string" where
  "analyzer_prompt url =
     ''Anda adalah asisten SEO. Berdasarkan URL '' @ quote @ url @ quote
       @ '' dan analisis awal (simulasi) ini:\<newline>'' @ simulated_analysis url
       @ ''\<newline>\<newline>Berikan ringkasan singkat tentang potensi masalah SEO on-page utama dan saran perbaikan umum dalam Bahasa Indonesia. Fokus pada aspek yang dapat dievaluasi dari data yang diberikan atau pengetahuan SEO umum.''"

definition seo_analyzer :: "env \<Rightarrow> string + json \<Rightarrow> globals \<Rightarrow> response \<times> globals" where
  "seo_analyzer e request_json s =
     (case request_json of
        Inl ex \<Rightarrow> server_error ''/api/seo-analyzer'' ex s
      | Inr data \<Rightarrow>
          (case py_get data ''url'' JNull of
             Inl f \<Rightarrow> server_error ''/api/seo-analyzer'' (exc_text e f) s
           | Inr url \<Rightarrow>
               (if \<not> py_truthy url then ((400, ErrorBody ''URL diperlukan.''), s)
                else
                  (case generate_text e (analyzer_prompt (fmt e url)) ''SEO Analyzer'' s of
                     (result, s') \<Rightarrow> (wrap_result result, s')))))"

text \<open>The separator in \<open>news_context\<close> is a backslash followed by the letter n.\<close>

definition news_context :: "string \<Rightarrow> string" where
  "news_context search_query =
     ''Tren pencarian untuk '' @ quote @ search_query @ quote
       @ '' meningkat di Google Trends minggu ini.'' @ [CHR 0x5C, CHR ''n'']
       @ ''Sebuah artikel di Kompasiana membahas dampak '' @ quote @ search_query @ quote
       @ '' pada UMKM lokal.'' @ [CHR 0x5C, CHR ''n'']
       @ ''Pemerintah mengumumkan regulasi baru yang mungkin mempengaruhi industri terkait ''
       @ quote @ search_query @ quote @ ''.''"

definition news_prompt :: "string \<Rightarrow> string" where
  "news_prompt search_query =
     ''Topik/Kata Kunci Pencarian Berita: '' @ quote @ search_query @ quote
       @ ''\<newline>Berikut adalah beberapa rangkuman berita/informasi terkini yang relevan (simulasi):\<newline>''
       @ news_context search_query
       @ ''\<newline>Berikan analisis singkat mengenai berita ini dalam Bahasa Indonesia. Apa implikasinya dari sudut pandang SEO atau konten? Apa tren utama yang terlihat?''"

definition news_radar :: "env \<Rightarrow> string + json \<Rightarrow> globals \<Rightarrow> response \<times> globals" where
  "news_radar e request_json s =
     (case request_json of
        Inl ex \<Rightarrow> server_error ''/api/news-radar'' ex s
      | Inr data \<Rightarrow>
          (case py_get data ''search_query'' JNull of
             Inl f \<Rightarrow> server_error ''/api/news-radar'' (exc_text e f) s
           | Inr search_query \<Rightarrow>
               (if \<not> py_truthy search_query then
                  ((400, ErrorBody ''Query pencarian diperlukan.''), s)
                else
                  (case generate_text e (news_prompt (fmt e search_query)) ''News Radar'' s of
                     (result, s') \<Rightarrow> (wrap_result result, s')))))"

subsection \<open>Start-up and the states the module can be in\<close>

text \<open>The \<open>__main__\<close> block, lines 265 to 281, up to the start of the server.\<close>

definition startup :: "env \<Rightarrow> globals \<Rightarrow> globals" where
  "startup e s =
     (let s1 = logging INFO
                 (''Checking Ollama availability (Model: '' @ OLLAMA_MODEL @ '')...'') s;
          s2 = (case ollama_list e of
                  Inr _ \<Rightarrow>
                    logging INFO
                      (''Ollama service detected. Using primary generation method: ''
                         @ ollama_source)
                      (s1\<lparr>ollama_available := True, GENERATION_METHOD := ollama_source\<rparr>)
                | Inl ex \<Rightarrow>
                    snd (initialize_hf_pipeline e
                           (logging WARNING
                              (''Could not connect to Ollama. Will attempt Hugging Face fallback. Error: ''
                                 @ ex)
                              (s1\<lparr>ollama_available := False\<rparr>))))
      in logging INFO
           (''Starting Flask server. Text Generation active method: '' @ GENERATION_METHOD s2) s2)"

text \<open>
  The globals after the module is loaded (with or without the \<open>__main__\<close> block, as under
  a WSGI server) and after any number of calls of its two functions.
\<close>

inductive reachable :: "globals \<Rightarrow> bool" where
  loaded: "reachable (module_globals b)"
| started: "reachable (startup e (module_globals b))"
| initialized: "reachable s \<Longrightarrow> reachable (snd (initialize_hf_pipeline e s))"
| generated: "reachable s \<Longrightarrow> reachable (snd (generate_text e p t s))"

subsection \<open>Example worlds\<close>

text \<open>
  A world in which every outside party answers: Ollama returns a fixed text, the pipeline
  can be built, and the model echoes the prompt before its continuation.
\<close>

definition demo_env :: env where
  "demo_env =
     \<lparr>ollama_list = Inr (), ollama_chat = (\<lambda>p. Inr ''kopi susu''), pipeline_new = Inr 7,
      hf_invoke = (\<lambda>h p. Inr (p @ '' continuation text'')), py_bool = (\<lambda>h. True),
      now = ''2025-01-01 12:00:00'', py_str = (\<lambda>v. ''?''), exc_text = (\<lambda>f. ''fault'')\<rparr>"

text \<open>The same world with Ollama unreachable at start-up.\<close>

definition offline_env :: env where
  "offline_env = demo_env\<lparr>ollama_list := Inl ''connection refused''\<rparr>"

text \<open>The globals after start-up with Ollama present, and with only the pipeline.\<close>

definition primary_up :: globals where
  "primary_up = startup demo_env (module_globals True)"

definition secondary_up :: globals where
  "secondary_up = startup offline_env (module_globals True)"


definition failing_env :: env where
  "failing_env =
     demo_env\<lparr>ollama_chat := (\<lambda>p. Inl ''boom''), hf_invoke := (\<lambda>h p. Inl ''boom'')\<rparr>"

definition broken_env :: env where
  "broken_env = demo_env\<lparr>pipeline_new := Inl ''no weights''\<rparr>"

definition falsy_env :: env where
  "falsy_env = demo_env\<lparr>py_bool := (\<lambda>h. False)\<rparr>"

subsection \<open>Observers used in the statements\<close>

definition new_calls :: "globals \<Rightarrow> globals \<Rightarrow> call list" where
  "new_calls s s' = drop (length (calls s)) (calls s')"

definition new_logged :: "globals \<Rightarrow> globals \<Rightarrow> (level \<times> string) list" where
  "new_logged s s' = drop (length (logged s)) (logged s')"

definition constructions :: "globals \<Rightarrow> globals \<Rightarrow> nat" where
  "constructions s s' = count_list (new_calls s s') CallPipelineNew"

definition is_backend_call :: "call \<Rightarrow> bool" where
  "is_backend_call c =
     (case c of CallOllamaChat _ \<Rightarrow> True | CallHfPipeline _ \<Rightarrow> True | _ \<Rightarrow> False)"

definition backend_calls :: "globals \<Rightarrow> globals \<Rightarrow> call list" where
  "backend_calls s s' = filter is_backend_call (new_calls s s')"

definition errors_logged :: "globals \<Rightarrow> globals \<Rightarrow> string list" where
  "errors_logged s s' = map snd (filter (\<lambda>x. fst x = ERROR) (new_logged s s'))"

text \<open>A required field that is not in the object, or whose value Python counts as false.\<close>

definition absent_or_falsy :: "(string \<times> json) list \<Rightarrow> string \<Rightarrow> bool" where
  "absent_or_falsy kvs k = (case dict_lookup kvs k of None \<Rightarrow> True | Some v \<Rightarrow> \<not> py_truthy v)"

text \<open>The object with every member named \<open>k\<close> taken out.\<close>

definition without :: "string \<Rightarrow> (string \<times> json) list \<Rightarrow> (string \<times> json) list" where
  "without k kvs = filter (\<lambda>kv. fst kv \<noteq> k) kvs"

text \<open>
  One call of \<open>generate_text\<close>, answered with status 500 and the string under \<open>error\<close>
  when the string contains the marker, and with status 200 and the string under
  \<open>result\<close> when it does not.
\<close>

definition respond :: "env \<Rightarrow> string \<Rightarrow> string \<Rightarrow> globals \<Rightarrow> response \<times> globals" where
  "respond e prompt tool_name s =
     (case generate_text e prompt tool_name s of
        (result, s') \<Rightarrow>
          ((if sublist error_marker result then (500, ErrorBody result)
            else (200, ResultBody result)), s'))"

text \<open>The line logged on entry to the secondary path.\<close>

definition hf_attempt_line :: "string \<Rightarrow> string" where
  "hf_attempt_line t =
     ''Ollama unavailable. Attempting generation via '' @ hf_source @ '' for '' @ t @ ''...''"

text \<open>
  Only \<open>initialize_hf_pipeline\<close> assigns \<open>hf_pipeline\<close>, and only past its first test; so
  a pipeline object is never held without the transformers library.
\<close>

definition library_present :: "globals \<Rightarrow> bool" where
  "library_present s = (hf_pipeline s = None \<or> TRANSFORMERS_AVAILABLE s)"

section \<open>Basic facts\<close>

lemma logging_simps [simp]:
  "calls (logging l m s) = calls s"
  "hf_pipeline (logging l m s) = hf_pipeline s"
  "GENERATION_METHOD (logging l m s) = GENERATION_METHOD s"
  "ollama_available (logging l m s) = ollama_available s"
  "TRANSFORMERS_AVAILABLE (logging l m s) = TRANSFORMERS_AVAILABLE s"
  "logged (logging l m s) = logged s @ [(l, m)]"
  by (simp_all add: logging_def)

lemma record_call_simps [simp]:
  "calls (record_call c s) = calls s @ [c]"
  "hf_pipeline (record_call c s) = hf_pipeline s"
  "GENERATION_METHOD (record_call c s) = GENERATION_METHOD s"
  "ollama_available (record_call c s) = ollama_available s"
  "TRANSFORMERS_AVAILABLE (record_call c s) = TRANSFORMERS_AVAILABLE s"
  "logged (record_call c s) = logged s"
  by (simp_all add: record_call_def)

lemma snd_generate_text: "snd (generate_text e p t s) = snd (attempt e p t s)"
  by (simp add: generate_text_def split: prod.splits)

lemma fst_generate_text:
  "fst (generate_text e p t s) =
     format_report e t (fst (attempt e p t s)) (snd (attempt e p t s))"
  by (simp add: generate_text_def split: prod.splits)

subsection \<open>initialize_hf_pipeline, case by case\<close>

lemma initialize_present:
  assumes "TRANSFORMERS_AVAILABLE s" and "hf_pipeline s \<noteq> None"
  shows "initialize_hf_pipeline e s = (True, record_call CallInitialize s)"
  using assms by (auto simp add: initialize_hf_pipeline_def Let_def)

lemma initialize_absent_ok:
  assumes "TRANSFORMERS_AVAILABLE s" and "hf_pipeline s = None" and "pipeline_new e = Inr h"
  shows "fst (initialize_hf_pipeline e s)"
    and "hf_pipeline (snd (initialize_hf_pipeline e s)) = Some h"
    and "calls (snd (initialize_hf_pipeline e s)) = calls s @ [CallInitialize, CallPipelineNew]"
    and "GENERATION_METHOD (snd (initialize_hf_pipeline e s)) = ''Hugging Face''"
  using assms by (simp_all add: initialize_hf_pipeline_def Let_def)

lemma initialize_absent_fail:
  assumes "TRANSFORMERS_AVAILABLE s" and "hf_pipeline s = None" and "pipeline_new e = Inl ex"
  shows "\<not> fst (initialize_hf_pipeline e s)"
    and "hf_pipeline (snd (initialize_hf_pipeline e s)) = None"
    and "calls (snd (initialize_hf_pipeline e s)) = calls s @ [CallInitialize, CallPipelineNew]"
    and "GENERATION_METHOD (snd (initialize_hf_pipeline e s)) = ''Error: HF Init Failed''"
  using assms by (simp_all add: initialize_hf_pipeline_def Let_def)

lemma initialize_no_library:
  assumes "\<not> TRANSFORMERS_AVAILABLE s"
  shows "\<not> fst (initialize_hf_pipeline e s)"
    and "hf_pipeline (snd (initialize_hf_pipeline e s)) = hf_pipeline s"
    and "calls (snd (initialize_hf_pipeline e s)) = calls s @ [CallInitialize]"
    and "GENERATION_METHOD (snd (initialize_hf_pipeline e s)) = ''Error: Transformers Missing''"
  using assms by (simp_all add: initialize_hf_pipeline_def Let_def)

lemma initialize_flags [simp]:
  "TRANSFORMERS_AVAILABLE (snd (initialize_hf_pipeline e s)) = TRANSFORMERS_AVAILABLE s"
  "ollama_available (snd (initialize_hf_pipeline e s)) = ollama_available s"
  by (simp_all add: initialize_hf_pipeline_def Let_def split: sum.splits)

lemma initialize_success:
  "fst (initialize_hf_pipeline e s) \<Longrightarrow>
     TRANSFORMERS_AVAILABLE s \<and> hf_pipeline (snd (initialize_hf_pipeline e s)) \<noteq> None"
  by (auto simp add: initialize_hf_pipeline_def Let_def split: sum.splits if_splits)

lemma initialize_keeps_library:
  "library_present s \<Longrightarrow> library_present (snd (initialize_hf_pipeline e s))"
  by (auto simp add: library_present_def initialize_hf_pipeline_def Let_def
      split: sum.splits if_splits)

subsection \<open>The lazy initialisation inside generate_text\<close>

lemma ensure_pipeline_unfold:
  "ensure_pipeline e s =
     (if hf_pipeline s = None then
        (if fst (initialize_hf_pipeline e s)
         then ((hf_source, None), snd (initialize_hf_pipeline e s))
         else ((''Error'', Some msg_init_failed),
               logging ERROR msg_init_failed (snd (initialize_hf_pipeline e s))))
      else ((hf_source, None), s))"
  by (cases "initialize_hf_pipeline e s") (auto simp add: ensure_pipeline_def)

lemma ensure_flags [simp]:
  "TRANSFORMERS_AVAILABLE (snd (ensure_pipeline e s)) = TRANSFORMERS_AVAILABLE s"
  "ollama_available (snd (ensure_pipeline e s)) = ollama_available s"
  by (simp_all add: ensure_pipeline_unfold)

lemma ensure_keeps_library:
  "library_present s \<Longrightarrow> library_present (snd (ensure_pipeline e s))"
  using initialize_keeps_library[of s e]
  by (auto simp add: ensure_pipeline_unfold library_present_def)

lemma attempt_pipeline:
  "hf_pipeline (snd (attempt e p t s)) =
     (if ollama_available s \<or> \<not> TRANSFORMERS_AVAILABLE s then hf_pipeline s
      else hf_pipeline (snd (ensure_pipeline e
             (logging INFO (''Ollama unavailable. Attempting generation via '' @ hf_source
                @ '' for '' @ t @ ''...'') s))))"
  by (auto simp add: attempt_def on_exception_def Let_def
      split: sum.splits prod.splits option.splits)

lemma attempt_flags [simp]:
  "TRANSFORMERS_AVAILABLE (snd (attempt e p t s)) = TRANSFORMERS_AVAILABLE s"
  "ollama_available (snd (attempt e p t s)) = ollama_available s"
  by (auto simp add: attempt_def on_exception_def Let_def
      split: sum.splits prod.splits option.splits
      dest: arg_cong[where f = "\<lambda>x. TRANSFORMERS_AVAILABLE (snd x)"]
            arg_cong[where f = "\<lambda>x. ollama_available (snd x)"])

lemma attempt_keeps_library:
  "library_present s \<Longrightarrow> library_present (snd (attempt e p t s))"
  using ensure_keeps_library[of "logging INFO m s" e for m]
  by (simp add: library_present_def attempt_pipeline)

lemma startup_library: "library_present (startup e (module_globals b))"
  using initialize_keeps_library
    [of "logging WARNING m ((logging INFO m' (module_globals b))\<lparr>ollama_available := False\<rparr>)" e
     for m m']
  by (auto simp add: startup_def Let_def library_present_def module_globals_def logging_def
      split: sum.splits)

lemma reachable_library: "reachable s \<Longrightarrow> library_present s"
proof (induction rule: reachable.induct)
  case (loaded b)
  then show ?case by (simp add: library_present_def module_globals_def)
next
  case (started e b)
  then show ?case by (rule startup_library)
next
  case (initialized s e)
  then show ?case by (simp add: initialize_keeps_library)
next
  case (generated s e p t)
  then show ?case by (simp add: snd_generate_text attempt_keeps_library)
qed

subsection \<open>The example worlds, evaluated\<close>

lemma primary_up_eval:
  "hf_pipeline primary_up = None"
  "TRANSFORMERS_AVAILABLE primary_up"
  "ollama_available primary_up"
  "GENERATION_METHOD primary_up = ''Ollama (gemma3:1b)''"
  by (simp_all add: primary_up_def demo_env_def startup_def Let_def module_globals_def
      logging_def ollama_source_def OLLAMA_MODEL_def)

lemma secondary_up_eval:
  "hf_pipeline secondary_up = Some 7"
  "TRANSFORMERS_AVAILABLE secondary_up"
  "\<not> ollama_available secondary_up"
  "GENERATION_METHOD secondary_up = ''Hugging Face''"
  by (simp_all add: secondary_up_def offline_env_def demo_env_def startup_def Let_def
      module_globals_def initialize_hf_pipeline_def logging_def record_call_def)

section \<open>The generation router\<close>

subsection \<open>The primary path touches nothing else\<close>

lemma attempt_primary:
  assumes "ollama_available s"
  shows "calls (snd (attempt e p t s)) = calls s @ [CallOllamaChat p]"
    and "hf_pipeline (snd (attempt e p t s)) = hf_pipeline s"
    and "GENERATION_METHOD (snd (attempt e p t s)) = GENERATION_METHOD s"
  using assms by (simp_all add: attempt_def on_exception_def Let_def split: sum.splits)

text \<open>
  C1. With \<open>ollama_available\<close> true, the only call \<open>generate_text\<close> makes outside itself is
  the one to \<open>ollama.chat\<close> with the prompt: \<open>initialize_hf_pipeline\<close> is not entered and no
  pipeline is built, and \<open>hf_pipeline\<close> and \<open>GENERATION_METHOD\<close> are the same after the
  call as before.
\<close>

theorem generate_text_primary_only:
  assumes "ollama_available s"
  shows "new_calls s (snd (generate_text e p t s)) = [CallOllamaChat p]
       \<and> CallInitialize \<notin> set (new_calls s (snd (generate_text e p t s)))
       \<and> constructions s (snd (generate_text e p t s)) = 0
       \<and> hf_pipeline (snd (generate_text e p t s)) = hf_pipeline s
       \<and> GENERATION_METHOD (snd (generate_text e p t s)) = GENERATION_METHOD s"
  using assms
  by (simp add: snd_generate_text attempt_primary new_calls_def constructions_def)

theorem generate_text_primary_only_witness:
  "ollama_available primary_up
   \<and> new_calls primary_up (snd (generate_text demo_env ''kopi lokal'' ''Keyword Hunter'' primary_up))
       = [CallOllamaChat ''kopi lokal'']
   \<and> hf_pipeline (snd (generate_text demo_env ''kopi lokal'' ''Keyword Hunter'' primary_up)) = None
   \<and> GENERATION_METHOD (snd (generate_text demo_env ''kopi lokal'' ''Keyword Hunter'' primary_up))
       = ''Ollama (gemma3:1b)''"
  using generate_text_primary_only[of primary_up demo_env "''kopi lokal''" "''Keyword Hunter''"]
  by (simp add: primary_up_eval)

section \<open>The secondary pipeline initialiser\<close>

text \<open>
  C4. In every state the module can reach in which \<open>hf_pipeline\<close> is not \<open>None\<close>,
  \<open>initialize_hf_pipeline\<close> returns true and changes nothing, so the construction step
  runs zero times. When the pipeline is absent and a first call succeeds, a second call
  also returns true, keeps the object of the first, and the construction step has run
  once over both calls.
\<close>

theorem initialize_hf_pipeline_idempotent:
  "(reachable s \<and> hf_pipeline s \<noteq> None \<longrightarrow>
      initialize_hf_pipeline e s = (True, record_call CallInitialize s)
      \<and> constructions s (snd (initialize_hf_pipeline e s)) = 0)
   \<and> (hf_pipeline s = None \<and> fst (initialize_hf_pipeline e1 s) \<longrightarrow>
        fst (initialize_hf_pipeline e2 (snd (initialize_hf_pipeline e1 s)))
        \<and> hf_pipeline (snd (initialize_hf_pipeline e2 (snd (initialize_hf_pipeline e1 s))))
            = hf_pipeline (snd (initialize_hf_pipeline e1 s))
        \<and> hf_pipeline (snd (initialize_hf_pipeline e1 s)) \<noteq> None
        \<and> constructions s (snd (initialize_hf_pipeline e1 s)) = 1
        \<and> constructions s (snd (initialize_hf_pipeline e2 (snd (initialize_hf_pipeline e1 s)))) = 1)"
proof (intro conjI impI)
  assume a: "reachable s \<and> hf_pipeline s \<noteq> None"
  then have "library_present s" by (simp add: reachable_library)
  with a have ta: "TRANSFORMERS_AVAILABLE s" by (auto simp add: library_present_def)
  with a show "initialize_hf_pipeline e s = (True, record_call CallInitialize s)"
    by (auto simp add: initialize_present)
  then show "constructions s (snd (initialize_hf_pipeline e s)) = 0"
    by (simp add: constructions_def new_calls_def)
next
  assume a: "hf_pipeline s = None \<and> fst (initialize_hf_pipeline e1 s)"
  let ?s1 = "snd (initialize_hf_pipeline e1 s)"
  from a have ta: "TRANSFORMERS_AVAILABLE s" and some: "hf_pipeline ?s1 \<noteq> None"
    using initialize_success[of e1 s] by simp_all
  from a ta obtain h where h: "pipeline_new e1 = Inr h"
    using initialize_absent_fail(1)[of s e1] by (cases "pipeline_new e1") auto
  have c1: "calls ?s1 = calls s @ [CallInitialize, CallPipelineNew]"
    using a ta h by (simp add: initialize_absent_ok)
  have second: "initialize_hf_pipeline e2 ?s1 = (True, record_call CallInitialize ?s1)"
    using ta some by (auto simp add: initialize_present)
  show "fst (initialize_hf_pipeline e2 ?s1)" by (simp add: second)
  show "hf_pipeline (snd (initialize_hf_pipeline e2 ?s1)) = hf_pipeline ?s1"
    by (simp add: second)
  show "hf_pipeline ?s1 \<noteq> None" by (rule some)
  show "constructions s ?s1 = 1"
    by (simp add: constructions_def new_calls_def c1)
  show "constructions s (snd (initialize_hf_pipeline e2 ?s1)) = 1"
    by (simp add: second constructions_def new_calls_def c1)
qed

theorem initialize_hf_pipeline_idempotent_witness:
  "reachable secondary_up \<and> hf_pipeline secondary_up \<noteq> None
   \<and> initialize_hf_pipeline demo_env secondary_up = (True, record_call CallInitialize secondary_up)
   \<and> hf_pipeline (module_globals True) = None
   \<and> fst (initialize_hf_pipeline demo_env (module_globals True))
   \<and> constructions (module_globals True)
        (snd (initialize_hf_pipeline demo_env
               (snd (initialize_hf_pipeline demo_env (module_globals True))))) = 1"
proof -
  have r: "reachable secondary_up"
    unfolding secondary_up_def by (rule reachable.started)
  have n: "hf_pipeline secondary_up \<noteq> None" by (simp add: secondary_up_eval)
  have m: "hf_pipeline (module_globals True) = None" by (simp add: module_globals_def)
  have f: "fst (initialize_hf_pipeline demo_env (module_globals True))"
    by (simp add: initialize_hf_pipeline_def Let_def module_globals_def demo_env_def
        record_call_def logging_def)
  show ?thesis
    using r n m f
      initialize_hf_pipeline_idempotent[of secondary_up demo_env demo_env demo_env]
      initialize_hf_pipeline_idempotent[of "module_globals True" demo_env demo_env demo_env]
    by simp
qed

section \<open>The secondary path and the reports\<close>

lemma source_labels:
  "ollama_source = ''Ollama (gemma3:1b)''"
  "hf_source = ''Hugging Face (google/gemma-2b)''"
  "ollama_source \<noteq> ''Error''"
  "hf_source \<noteq> ''Error''"
  by (simp_all add: ollama_source_def hf_source_def OLLAMA_MODEL_def HF_MODEL_FALLBACK_def)

lemma messages_nonempty:
  "msg_init_failed \<noteq> []" "msg_pipeline_absent \<noteq> []" "msg_no_transformers \<noteq> []"
  by (simp_all add: msg_init_failed_def msg_pipeline_absent_def msg_no_transformers_def)

lemma initialize_fail_none:
  "\<not> fst (initialize_hf_pipeline e s) \<Longrightarrow> hf_pipeline s = None \<Longrightarrow>
     hf_pipeline (snd (initialize_hf_pipeline e s)) = None"
  by (auto simp add: initialize_hf_pipeline_def Let_def split: sum.splits if_splits)

lemma ensure_fst:
  "fst (ensure_pipeline e s) = (hf_source, None)
   \<or> fst (ensure_pipeline e s) = (''Error'', Some msg_init_failed)"
  by (simp add: ensure_pipeline_unfold)

lemma ensure_ready:
  "hf_pipeline (snd (ensure_pipeline e s)) \<noteq> None \<Longrightarrow>
     fst (ensure_pipeline e s) = (hf_source, None)"
  using initialize_fail_none[of e s]
  by (auto simp add: ensure_pipeline_unfold split: if_splits)

text \<open>What the lazy initialisation adds to the two traces when it ends with a pipeline.\<close>

lemma ensure_ready_shape:
  assumes "hf_pipeline (snd (ensure_pipeline e s)) \<noteq> None"
  shows "\<exists>cs ls. calls (snd (ensure_pipeline e s)) = calls s @ cs
           \<and> logged (snd (ensure_pipeline e s)) = logged s @ ls
           \<and> filter is_backend_call cs = []
           \<and> filter (\<lambda>x. fst x = ERROR) ls = []"
proof (cases "hf_pipeline s = None")
  case False
  then show ?thesis by (auto simp add: ensure_pipeline_unfold)
next
  case True
  with assms have ok: "fst (initialize_hf_pipeline e s)"
    using initialize_fail_none[of e s] by (auto simp add: ensure_pipeline_unfold split: if_splits)
  then have ta: "TRANSFORMERS_AVAILABLE s" by (simp add: initialize_success)
  from ok ta True obtain h where h: "pipeline_new e = Inr h"
    using initialize_absent_fail(1)[of s e] by (cases "pipeline_new e") auto
  have "calls (snd (ensure_pipeline e s)) = calls s @ [CallInitialize, CallPipelineNew]"
    using True ok ta h by (simp add: ensure_pipeline_unfold initialize_absent_ok)
  moreover have "\<exists>ls. logged (snd (ensure_pipeline e s)) = logged s @ ls
                   \<and> filter (\<lambda>x. fst x = ERROR) ls = []"
    using True ok ta h
    by (simp add: ensure_pipeline_unfold initialize_hf_pipeline_def Let_def)
  ultimately show ?thesis by (auto simp add: is_backend_call_def)
qed

lemma attempt_secondary:
  assumes "\<not> ollama_available s" and "TRANSFORMERS_AVAILABLE s"
  shows "attempt e p t s =
     (let en = ensure_pipeline e (logging INFO (hf_attempt_line t) s);
          src = fst (fst en); err = snd (fst en); s2 = snd en
      in case usable_pipeline e s2 of
           Some h \<Rightarrow>
             (case hf_invoke e h p of
                Inl ex \<Rightarrow> on_exception src t ex (record_call (CallHfPipeline p) s2)
              | Inr generated \<Rightarrow>
                  (\<lparr>source = src, result_text = strip_echo p generated, error_message = err\<rparr>,
                   logging INFO (''Received response from '' @ src @ '' for '' @ t @ ''.'')
                     (record_call (CallHfPipeline p) s2)))
         | None \<Rightarrow>
             (if not_message err then
                (\<lparr>source = ''Error'', result_text = '''',
                  error_message = Some msg_pipeline_absent\<rparr>,
                 logging ERROR msg_pipeline_absent s2)
              else (\<lparr>source = src, result_text = '''', error_message = err\<rparr>, s2)))"
proof -
  obtain src err s2
    where en: "ensure_pipeline e (logging INFO (hf_attempt_line t) s) = ((src, err), s2)"
    by (cases "ensure_pipeline e (logging INFO (hf_attempt_line t) s)") auto
  show ?thesis
    using assms en
    by (simp add: attempt_def Let_def hf_attempt_line_def split: option.splits sum.splits)
qed

lemma attempt_secondary_pipeline:
  assumes "\<not> ollama_available s" and "TRANSFORMERS_AVAILABLE s"
  shows "hf_pipeline (snd (attempt e p t s))
           = hf_pipeline (snd (ensure_pipeline e (logging INFO (hf_attempt_line t) s)))"
  using assms by (simp add: attempt_pipeline hf_attempt_line_def)

text \<open>The secondary path with a usable pipeline at hand.\<close>

lemma attempt_secondary_invoked:
  assumes "\<not> ollama_available s" and "TRANSFORMERS_AVAILABLE s"
    and "hf_pipeline (snd (attempt e p t s)) = Some h" and "py_bool e h"
  shows "attempt e p t s =
     (let s2 = snd (ensure_pipeline e (logging INFO (hf_attempt_line t) s))
      in case hf_invoke e h p of
           Inl ex \<Rightarrow> on_exception hf_source t ex (record_call (CallHfPipeline p) s2)
         | Inr generated \<Rightarrow>
             (\<lparr>source = hf_source, result_text = strip_echo p generated, error_message = None\<rparr>,
              logging INFO (''Received response from '' @ hf_source @ '' for '' @ t @ ''.'')
                (record_call (CallHfPipeline p) s2)))"
proof -
  let ?en = "ensure_pipeline e (logging INFO (hf_attempt_line t) s)"
  have held: "hf_pipeline (snd ?en) = Some h"
    using assms by (simp add: attempt_secondary_pipeline)
  then have f: "fst ?en = (hf_source, None)" by (simp add: ensure_ready)
  have u: "usable_pipeline e (snd ?en) = Some h"
    using held assms(4) by (simp add: usable_pipeline_def)
  show ?thesis
    using assms(1,2) f u by (simp add: attempt_secondary Let_def split: sum.splits)
qed


lemma format_success:
  "source out \<noteq> ''Error'' \<Longrightarrow>
     format_report e t out s = branded_result t (source out) (now e) (result_text out)"
  by (simp add: format_report_def Let_def)

lemma format_error:
  "source out = ''Error'' \<Longrightarrow>
     format_report e t out s =
       error_report (now e) (final_error_message (error_message out)) (fallback_info s)"
  by (simp add: format_report_def Let_def)




lemma secondary_up_generate_pipeline:
  "hf_pipeline (snd (generate_text e p t secondary_up)) = Some 7"
  by (simp add: snd_generate_text attempt_pipeline ensure_pipeline_unfold secondary_up_eval)



lemma on_exception_simps:
  "fst (on_exception src t ex s)
     = \<lparr>source = ''Error'', result_text = [],
        error_message = Some (''Error during text generation using '' @ src @ '': '' @ ex)\<rparr>"
  "calls (snd (on_exception src t ex s)) = calls s"
  "logged (snd (on_exception src t ex s))
     = logged s @ [(ERROR, ''Error during text generation via '' @ src @ '' for '' @ t @ '': '' @ ex)]"
  "hf_pipeline (snd (on_exception src t ex s)) = hf_pipeline s"
  "GENERATION_METHOD (snd (on_exception src t ex s)) = GENERATION_METHOD s"
  by (simp_all add: on_exception_def)

lemma initialize_calls:
  "\<exists>cs. calls (snd (initialize_hf_pipeline e s)) = calls s @ cs
        \<and> filter is_backend_call cs = []"
  by (auto simp add: initialize_hf_pipeline_def Let_def is_backend_call_def split: sum.splits)

lemma ensure_calls:
  "\<exists>cs. calls (snd (ensure_pipeline e s)) = calls s @ cs \<and> filter is_backend_call cs = []"
  using initialize_calls[of e s] by (auto simp add: ensure_pipeline_unfold)

text \<open>The outcome of the \<open>try\<close> statement, branch by branch.\<close>

lemma attempt_outcome:
  "(\<exists>text. fst (attempt e p t s)
              = \<lparr>source = ollama_source, result_text = text, error_message = None\<rparr>)
   \<or> (\<exists>text. fst (attempt e p t s)
              = \<lparr>source = hf_source, result_text = text, error_message = None\<rparr>)
   \<or> (\<exists>text m. m \<noteq> [] \<and> fst (attempt e p t s)
              = \<lparr>source = ''Error'', result_text = text, error_message = Some m\<rparr>)"
proof (cases "ollama_available s")
  case True
  then show ?thesis
    by (cases "ollama_chat e p") (simp_all add: attempt_def Let_def on_exception_simps)
next
  case False
  show ?thesis
  proof (cases "TRANSFORMERS_AVAILABLE s")
    case ta: True
    let ?en = "ensure_pipeline e (logging INFO (hf_attempt_line t) s)"
    from ensure_fst[of e "logging INFO (hf_attempt_line t) s"]
    show ?thesis
    proof
      assume f: "fst ?en = (hf_source, None)"
      show ?thesis
        using False ta f
        by (simp add: attempt_secondary Let_def on_exception_simps not_message_def
            messages_nonempty split: option.splits sum.splits)
    next
      assume f: "fst ?en = (''Error'', Some msg_init_failed)"
      show ?thesis
        using False ta f
        by (simp add: attempt_secondary Let_def on_exception_simps not_message_def
            messages_nonempty split: option.splits sum.splits)
    qed
  next
    case nota: False
    with False show ?thesis by (simp add: attempt_def messages_nonempty)
  qed
qed

lemma attempt_backend_calls: "length (backend_calls s (snd (attempt e p t s))) \<le> 1"
proof (cases "ollama_available s")
  case True
  then show ?thesis
    by (simp add: backend_calls_def new_calls_def attempt_primary)
next
  case False
  show ?thesis
  proof (cases "TRANSFORMERS_AVAILABLE s")
    case ta: True
    let ?s1 = "logging INFO (hf_attempt_line t) s"
    obtain cs where cs: "calls (snd (ensure_pipeline e ?s1)) = calls ?s1 @ cs"
      "filter is_backend_call cs = []"
      using ensure_calls[of e ?s1] by blast
    show ?thesis
      using False ta cs
      by (simp add: attempt_secondary Let_def on_exception_simps backend_calls_def new_calls_def
          split: option.splits sum.splits)
  next
    case nota: False
    with False show ?thesis by (simp add: attempt_def backend_calls_def new_calls_def)
  qed
qed

lemma primary_raises:
  assumes "ollama_available s" and "ollama_chat e p = Inl ex"
  shows "fst (attempt e p t s)
           = \<lparr>source = ''Error'', result_text = [],
              error_message =
                Some (''Error during text generation using '' @ ollama_source @ '': '' @ ex)\<rparr>"
    and "new_calls s (snd (attempt e p t s)) = [CallOllamaChat p]"
    and "errors_logged s (snd (attempt e p t s))
           = [''Error during text generation via '' @ ollama_source @ '' for '' @ t @ '': '' @ ex]"
  using assms
  by (simp_all add: attempt_def Let_def on_exception_simps new_calls_def errors_logged_def
      new_logged_def)

lemma secondary_raises:
  assumes "\<not> ollama_available s" and "TRANSFORMERS_AVAILABLE s"
    and "hf_pipeline (snd (attempt e p t s)) = Some h" and "py_bool e h"
    and "hf_invoke e h p = Inl ex"
  shows "fst (attempt e p t s)
           = \<lparr>source = ''Error'', result_text = [],
              error_message =
                Some (''Error during text generation using '' @ hf_source @ '': '' @ ex)\<rparr>"
    and "backend_calls s (snd (attempt e p t s)) = [CallHfPipeline p]"
    and "errors_logged s (snd (attempt e p t s))
           = [''Error during text generation via '' @ hf_source @ '' for '' @ t @ '': '' @ ex]"
proof -
  let ?s1 = "logging INFO (hf_attempt_line t) s"
  let ?s2 = "snd (ensure_pipeline e ?s1)"
  have eq: "attempt e p t s = on_exception hf_source t ex (record_call (CallHfPipeline p) ?s2)"
    using attempt_secondary_invoked[OF assms(1-4)] assms(5) by (simp add: Let_def)
  have "hf_pipeline ?s2 \<noteq> None"
    using assms(1-3) by (simp add: attempt_secondary_pipeline)
  then obtain cs ls where sh:
    "calls ?s2 = calls ?s1 @ cs" "logged ?s2 = logged ?s1 @ ls"
    "filter is_backend_call cs = []" "filter (\<lambda>x. fst x = ERROR) ls = []"
    using ensure_ready_shape[of e ?s1] by blast
  show "fst (attempt e p t s)
           = \<lparr>source = ''Error'', result_text = [],
              error_message =
                Some (''Error during text generation using '' @ hf_source @ '': '' @ ex)\<rparr>"
    by (simp add: eq on_exception_simps)
  show "backend_calls s (snd (attempt e p t s)) = [CallHfPipeline p]"
    by (simp add: eq on_exception_simps backend_calls_def new_calls_def sh is_backend_call_def)
  show "errors_logged s (snd (attempt e p t s))
           = [''Error during text generation via '' @ hf_source @ '' for '' @ t @ '': '' @ ex]"
    by (simp add: eq on_exception_simps errors_logged_def new_logged_def sh)
qed

text \<open>
  C5. No call invokes more than one backend. When the backend that is invoked raises,
  \<open>generate_text\<close> still returns: the result is the error report, which carries the text
  of the exception and the label of the source that was tried; the backend that raised
  is the only one called (after \<open>ollama.chat\<close> raises, nothing of the secondary path runs),
  and the call logs one error line, which names that source.
\<close>

theorem backend_exception_reported:
  "length (backend_calls s (snd (generate_text e p t s))) \<le> 1
   \<and> (ollama_available s \<and> ollama_chat e p = Inl ex \<longrightarrow>
      fst (generate_text e p t s)
        = ''--- Wolfgank AI Error ('' @ now e
            @ '') ---\<newline>\<newline>Error during text generation using Ollama (gemma3:1b): ''
            @ ex @ fallback_info (snd (generate_text e p t s))
            @ ''\<newline>Please check logs and model availability.\<newline>\<newline>--- End of Report ---''
      \<and> new_calls s (snd (generate_text e p t s)) = [CallOllamaChat p]
      \<and> errors_logged s (snd (generate_text e p t s))
          = [''Error during text generation via Ollama (gemma3:1b) for '' @ t @ '': '' @ ex])
   \<and> (\<not> ollama_available s \<and> TRANSFORMERS_AVAILABLE s
        \<and> hf_pipeline (snd (generate_text e p t s)) = Some h \<and> py_bool e h
        \<and> hf_invoke e h p = Inl ex \<longrightarrow>
      fst (generate_text e p t s)
        = ''--- Wolfgank AI Error ('' @ now e
            @ '') ---\<newline>\<newline>Error during text generation using Hugging Face (google/gemma-2b): ''
            @ ex @ fallback_info (snd (generate_text e p t s))
            @ ''\<newline>Please check logs and model availability.\<newline>\<newline>--- End of Report ---''
      \<and> backend_calls s (snd (generate_text e p t s)) = [CallHfPipeline p]
      \<and> errors_logged s (snd (generate_text e p t s))
          = [''Error during text generation via Hugging Face (google/gemma-2b) for '' @ t
               @ '': '' @ ex])"
proof (intro conjI impI)
  show "length (backend_calls s (snd (generate_text e p t s))) \<le> 1"
    using attempt_backend_calls[of s e p t] by (simp add: snd_generate_text)
next
  assume a: "ollama_available s \<and> ollama_chat e p = Inl ex"
  then have o: "ollama_available s" and r: "ollama_chat e p = Inl ex" by simp_all
  show "fst (generate_text e p t s)
        = ''--- Wolfgank AI Error ('' @ now e
            @ '') ---\<newline>\<newline>Error during text generation using Ollama (gemma3:1b): ''
            @ ex @ fallback_info (snd (generate_text e p t s))
            @ ''\<newline>Please check logs and model availability.\<newline>\<newline>--- End of Report ---''"
    by (simp add: fst_generate_text snd_generate_text primary_raises(1)[OF o r] format_error
        final_error_message_def source_labels error_report_def end_of_report_def)
  show "new_calls s (snd (generate_text e p t s)) = [CallOllamaChat p]"
    by (simp add: snd_generate_text primary_raises(2)[OF o r])
  show "errors_logged s (snd (generate_text e p t s))
          = [''Error during text generation via Ollama (gemma3:1b) for '' @ t @ '': '' @ ex]"
    by (simp add: snd_generate_text primary_raises(3)[OF o r] source_labels)
next
  assume a: "\<not> ollama_available s \<and> TRANSFORMERS_AVAILABLE s
        \<and> hf_pipeline (snd (generate_text e p t s)) = Some h \<and> py_bool e h
        \<and> hf_invoke e h p = Inl ex"
  then have o: "\<not> ollama_available s" and ta: "TRANSFORMERS_AVAILABLE s"
    and held: "hf_pipeline (snd (attempt e p t s)) = Some h" and b: "py_bool e h"
    and r: "hf_invoke e h p = Inl ex"
    by (simp_all add: snd_generate_text)
  note facts = secondary_raises[OF o ta held b r]
  show "fst (generate_text e p t s)
        = ''--- Wolfgank AI Error ('' @ now e
            @ '') ---\<newline>\<newline>Error during text generation using Hugging Face (google/gemma-2b): ''
            @ ex @ fallback_info (snd (generate_text e p t s))
            @ ''\<newline>Please check logs and model availability.\<newline>\<newline>--- End of Report ---''"
    by (simp add: fst_generate_text snd_generate_text facts(1) format_error
        final_error_message_def source_labels error_report_def end_of_report_def)
  show "backend_calls s (snd (generate_text e p t s)) = [CallHfPipeline p]"
    by (simp add: snd_generate_text facts(2))
  show "errors_logged s (snd (generate_text e p t s))
          = [''Error during text generation via Hugging Face (google/gemma-2b) for '' @ t
               @ '': '' @ ex]"
    by (simp add: snd_generate_text facts(3) source_labels)
qed

text \<open>
  C6. A call that ends with a source other than \<open>Error\<close> returns the result template:
  the tool name, the source label, the timestamp, the result text and the closing line.
  The source label is then one of the two backend labels.
\<close>

theorem success_banner:
  assumes "source (fst (attempt e p t s)) \<noteq> ''Error''"
  shows "fst (generate_text e p t s)
           = ''--- Wolfgank AI ['' @ t @ ''] Result ('' @ source (fst (attempt e p t s)) @ '' @ ''
               @ now e @ '') ---\<newline>\<newline>'' @ result_text (fst (attempt e p t s))
               @ ''\<newline>\<newline>--- End of Report ---''
       \<and> (source (fst (attempt e p t s)) = ''Ollama (gemma3:1b)''
            \<or> source (fst (attempt e p t s)) = ''Hugging Face (google/gemma-2b)'')"
proof -
  have "fst (generate_text e p t s)
          = branded_result t (source (fst (attempt e p t s))) (now e)
              (result_text (fst (attempt e p t s)))"
    using assms by (simp add: fst_generate_text format_success)
  moreover have "source (fst (attempt e p t s)) = ollama_source
                 \<or> source (fst (attempt e p t s)) = hf_source"
    using attempt_outcome[of e p t s] assms by auto
  ultimately show ?thesis
    by (simp add: branded_result_def end_of_report_def source_labels)
qed

text \<open>
  C7, amended. A call that ends with source \<open>Error\<close> returns the error template: the
  timestamp, the error message (never empty, so the default text is not used), and a
  fallback text chosen in this order: the status line with \<open>GENERATION_METHOD\<close> when that
  label begins with \<open>Error\<close>; otherwise the missing-library text when Ollama and the
  library are both absent; otherwise the failed-to-initialise text when Ollama is absent
  and no pipeline is held; otherwise nothing.
\<close>

theorem error_banner:
  assumes "source (fst (attempt e p t s)) = ''Error''"
  shows "\<exists>m. error_message (fst (attempt e p t s)) = Some m \<and> m \<noteq> []
           \<and> fst (generate_text e p t s)
               = ''--- Wolfgank AI Error ('' @ now e @ '') ---\<newline>\<newline>'' @ m
                   @ fallback_info (snd (generate_text e p t s))
                   @ ''\<newline>Please check logs and model availability.\<newline>\<newline>--- End of Report ---''
           \<and> fallback_info (snd (generate_text e p t s))
               = (if prefix ''Error'' (GENERATION_METHOD (snd (generate_text e p t s))) then
                    '' Fallback Status: '' @ GENERATION_METHOD (snd (generate_text e p t s)) @ ''.''
                  else if \<not> ollama_available s \<and> \<not> TRANSFORMERS_AVAILABLE s then
                    '' Fallback attempted but Transformers library is missing.''
                  else if \<not> ollama_available s
                          \<and> hf_pipeline (snd (generate_text e p t s)) = None then
                    '' Fallback attempted but HF model (google/gemma-2b) failed to initialize.''
                  else [])"
proof -
  from attempt_outcome[of e p t s] assms obtain rt m
    where m: "m \<noteq> []"
      and out: "fst (attempt e p t s)
                  = \<lparr>source = ''Error'', result_text = rt, error_message = Some m\<rparr>"
    by (auto simp add: source_labels)
  have "fst (generate_text e p t s)
          = error_report (now e) m (fallback_info (snd (generate_text e p t s)))"
    using m by (simp add: fst_generate_text snd_generate_text out format_error
        final_error_message_def)
  then have "fst (generate_text e p t s)
               = ''--- Wolfgank AI Error ('' @ now e @ '') ---\<newline>\<newline>'' @ m
                   @ fallback_info (snd (generate_text e p t s))
                   @ ''\<newline>Please check logs and model availability.\<newline>\<newline>--- End of Report ---''"
    by (simp add: error_report_def end_of_report_def)
  moreover have "fallback_info (snd (generate_text e p t s))
               = (if prefix ''Error'' (GENERATION_METHOD (snd (generate_text e p t s))) then
                    '' Fallback Status: '' @ GENERATION_METHOD (snd (generate_text e p t s)) @ ''.''
                  else if \<not> ollama_available s \<and> \<not> TRANSFORMERS_AVAILABLE s then
                    '' Fallback attempted but Transformers library is missing.''
                  else if \<not> ollama_available s
                          \<and> hf_pipeline (snd (generate_text e p t s)) = None then
                    '' Fallback attempted but HF model (google/gemma-2b) failed to initialize.''
                  else [])"
    by (simp add: fallback_info_def snd_generate_text HF_MODEL_FALLBACK_def)
  ultimately show ?thesis using m out by simp
qed

lemma message_texts:
  "msg_no_transformers
     = ''Error: Ollama is unavailable and the Transformers library is not installed. Cannot generate text.''"
  "msg_init_failed = ''Error: Failed to initialize Hugging Face fallback model (google/gemma-2b).''"
  "msg_pipeline_absent
     = ''Error: Hugging Face pipeline is not available after initialization attempt.''"
  by (simp_all add: msg_no_transformers_def msg_init_failed_def msg_pipeline_absent_def
      HF_MODEL_FALLBACK_def)

lemma error_report_prefix: "prefix error_marker (error_report ts m info)"
  by (simp add: error_marker_def error_report_def)

lemma no_library_report_mentions:
  "sublist ''the Transformers library is not installed''
     (error_report ts msg_no_transformers info)"
proof -
  have "error_report ts msg_no_transformers info
          = (''--- Wolfgank AI Error ('' @ ts @ '') ---\<newline>\<newline>''
              @ ''Error: Ollama is unavailable and '')
            @ ''the Transformers library is not installed''
            @ (''. Cannot generate text.'' @ info
               @ ''\<newline>Please check logs and model availability.\<newline>\<newline>''
               @ end_of_report)"
    by (simp add: error_report_def msg_no_transformers_def)
  then show ?thesis by (simp only: sublist_appendI)
qed

lemma no_library_outcome:
  assumes "\<not> ollama_available s" and "\<not> TRANSFORMERS_AVAILABLE s"
  shows "attempt e p t s
           = (\<lparr>source = ''Error'', result_text = [], error_message = Some msg_no_transformers\<rparr>,
              logging ERROR msg_no_transformers s)"
  using assms by (simp add: attempt_def)

lemma init_failed_outcome:
  assumes "\<not> ollama_available s" and "TRANSFORMERS_AVAILABLE s"
    and "hf_pipeline s = None" and "pipeline_new e = Inl ex"
  shows "fst (attempt e p t s)
           = \<lparr>source = ''Error'', result_text = [], error_message = Some msg_init_failed\<rparr>"
proof -
  let ?s1 = "logging INFO (hf_attempt_line t) s"
  have n: "hf_pipeline ?s1 = None" and ta: "TRANSFORMERS_AVAILABLE ?s1"
    using assms by simp_all
  note f = initialize_absent_fail[OF ta n assms(4)]
  have en: "ensure_pipeline e ?s1
              = ((''Error'', Some msg_init_failed),
                 logging ERROR msg_init_failed (snd (initialize_hf_pipeline e ?s1)))"
    using n f(1) by (simp add: ensure_pipeline_unfold)
  show ?thesis
    using assms(1,2) f(2)
    by (simp add: attempt_secondary en Let_def usable_pipeline_def not_message_def
        messages_nonempty)
qed

lemma unusable_outcome:
  assumes "\<not> ollama_available s" and "TRANSFORMERS_AVAILABLE s"
    and "hf_pipeline (snd (attempt e p t s)) = Some h" and "\<not> py_bool e h"
  shows "fst (attempt e p t s)
           = \<lparr>source = ''Error'', result_text = [], error_message = Some msg_pipeline_absent\<rparr>"
proof -
  let ?en = "ensure_pipeline e (logging INFO (hf_attempt_line t) s)"
  have held: "hf_pipeline (snd ?en) = Some h"
    using assms by (simp add: attempt_secondary_pipeline)
  then have f: "fst ?en = (hf_source, None)" by (simp add: ensure_ready)
  have u: "usable_pipeline e (snd ?en) = None"
    using held assms(4) by (simp add: usable_pipeline_def)
  show ?thesis
    using assms(1,2) f u by (simp add: attempt_secondary Let_def not_message_def)
qed

lemma failed_without_backend:
  assumes "\<not> ollama_available s"
    and "\<forall>ex. error_message (fst (attempt e p t s))
              \<noteq> Some (''Error during text generation using '' @ hf_source @ '': '' @ ex)"
    and "source (fst (attempt e p t s)) = ''Error''"
  shows "backend_calls s (snd (attempt e p t s)) = []"
proof (cases "TRANSFORMERS_AVAILABLE s")
  case False
  with assms(1) show ?thesis
    by (simp add: no_library_outcome backend_calls_def new_calls_def)
next
  case True
  let ?s1 = "logging INFO (hf_attempt_line t) s"
  let ?en = "ensure_pipeline e ?s1"
  obtain cs where cs: "calls (snd ?en) = calls ?s1 @ cs" "filter is_backend_call cs = []"
    using ensure_calls[of e ?s1] by blast
  show ?thesis
  proof (cases "usable_pipeline e (snd ?en)")
    case None
    then show ?thesis
      using assms(1) True cs
      by (simp add: attempt_secondary Let_def backend_calls_def new_calls_def)
  next
    case (Some h)
    then have "hf_pipeline (snd ?en) \<noteq> None"
      by (auto simp add: usable_pipeline_def split: option.splits)
    then have f: "fst ?en = (hf_source, None)" by (simp add: ensure_ready)
    show ?thesis
    proof (cases "hf_invoke e h p")
      case (Inl ex)
      with assms(1,2) True Some f show ?thesis
        by (simp add: attempt_secondary Let_def on_exception_simps)
    next
      case (Inr g)
      with assms(1,3) True Some f show ?thesis
        by (simp add: attempt_secondary Let_def source_labels)
    qed
  qed
qed

text \<open>
  C3. With Ollama unavailable, each of the three ways the secondary path can fail to
  produce text ends with source \<open>Error\<close>, without any backend being invoked, and with its
  own message: the library is not installed; building the pipeline raised during this
  call; the pipeline object held after the initialisation step is not usable. The three
  messages differ. In the first case the report is the error report and contains the
  words "the Transformers library is not installed".
\<close>

theorem failure_causes_distinguished:
  "(\<not> ollama_available s \<and> \<not> TRANSFORMERS_AVAILABLE s \<longrightarrow>
      fst (attempt e p t s)
        = \<lparr>source = ''Error'', result_text = [],
           error_message = Some ''Error: Ollama is unavailable and the Transformers library is not installed. Cannot generate text.''\<rparr>
      \<and> prefix ''--- Wolfgank AI Error'' (fst (generate_text e p t s))
      \<and> sublist ''the Transformers library is not installed'' (fst (generate_text e p t s))
      \<and> backend_calls s (snd (generate_text e p t s)) = [])
   \<and> (\<not> ollama_available s \<and> TRANSFORMERS_AVAILABLE s \<and> hf_pipeline s = None
        \<and> pipeline_new e = Inl ex \<longrightarrow>
      fst (attempt e p t s)
        = \<lparr>source = ''Error'', result_text = [],
           error_message = Some ''Error: Failed to initialize Hugging Face fallback model (google/gemma-2b).''\<rparr>
      \<and> backend_calls s (snd (generate_text e p t s)) = [])
   \<and> (\<not> ollama_available s \<and> TRANSFORMERS_AVAILABLE s
        \<and> hf_pipeline (snd (generate_text e p t s)) = Some h \<and> \<not> py_bool e h \<longrightarrow>
      fst (attempt e p t s)
        = \<lparr>source = ''Error'', result_text = [],
           error_message = Some ''Error: Hugging Face pipeline is not available after initialization attempt.''\<rparr>
      \<and> backend_calls s (snd (generate_text e p t s)) = [])
   \<and> distinct [msg_no_transformers, msg_init_failed, msg_pipeline_absent]"
proof (intro conjI impI)
  assume a: "\<not> ollama_available s \<and> \<not> TRANSFORMERS_AVAILABLE s"
  then have eq: "attempt e p t s
           = (\<lparr>source = ''Error'', result_text = [], error_message = Some msg_no_transformers\<rparr>,
              logging ERROR msg_no_transformers s)"
    by (simp add: no_library_outcome)
  have rep: "fst (generate_text e p t s)
          = error_report (now e) msg_no_transformers
              (fallback_info (logging ERROR msg_no_transformers s))"
    by (simp add: fst_generate_text eq format_error final_error_message_def messages_nonempty)
  show "fst (attempt e p t s)
        = \<lparr>source = ''Error'', result_text = [],
           error_message = Some ''Error: Ollama is unavailable and the Transformers library is not installed. Cannot generate text.''\<rparr>"
    by (simp add: eq message_texts)
  show "prefix ''--- Wolfgank AI Error'' (fst (generate_text e p t s))"
    using error_report_prefix by (simp add: rep error_marker_def)
  show "sublist ''the Transformers library is not installed'' (fst (generate_text e p t s))"
    by (simp only: rep no_library_report_mentions)
  show "backend_calls s (snd (generate_text e p t s)) = []"
    by (simp add: snd_generate_text eq backend_calls_def new_calls_def)
next
  assume a: "\<not> ollama_available s \<and> TRANSFORMERS_AVAILABLE s \<and> hf_pipeline s = None
        \<and> pipeline_new e = Inl ex"
  then have out: "fst (attempt e p t s)
           = \<lparr>source = ''Error'', result_text = [], error_message = Some msg_init_failed\<rparr>"
    by (simp add: init_failed_outcome)
  show "fst (attempt e p t s)
        = \<lparr>source = ''Error'', result_text = [],
           error_message = Some ''Error: Failed to initialize Hugging Face fallback model (google/gemma-2b).''\<rparr>"
    by (simp add: out message_texts)
  show "backend_calls s (snd (generate_text e p t s)) = []"
    using a failed_without_backend[of s e p t]
    by (simp add: snd_generate_text out message_texts source_labels)
next
  assume a: "\<not> ollama_available s \<and> TRANSFORMERS_AVAILABLE s
        \<and> hf_pipeline (snd (generate_text e p t s)) = Some h \<and> \<not> py_bool e h"
  then have out: "fst (attempt e p t s)
           = \<lparr>source = ''Error'', result_text = [], error_message = Some msg_pipeline_absent\<rparr>"
    using unusable_outcome[of s e p t h] by (simp add: snd_generate_text)
  show "fst (attempt e p t s)
        = \<lparr>source = ''Error'', result_text = [],
           error_message = Some ''Error: Hugging Face pipeline is not available after initialization attempt.''\<rparr>"
    by (simp add: out message_texts)
  show "backend_calls s (snd (generate_text e p t s)) = []"
    using a failed_without_backend[of s e p t]
    by (simp add: snd_generate_text out message_texts source_labels)
next
  show "distinct [msg_no_transformers, msg_init_failed, msg_pipeline_absent]"
    by (simp add: message_texts)
qed

text \<open>
  C10. Every report begins with \<open>--- Wolfgank AI\<close> and ends with the closing line, and it
  begins with \<open>--- Wolfgank AI Error\<close> exactly when the call ended with source \<open>Error\<close>.
\<close>

theorem banner_frame:
  "prefix ''--- Wolfgank AI'' (fst (generate_text e p t s))
   \<and> suffix ''--- End of Report ---'' (fst (generate_text e p t s))
   \<and> (prefix ''--- Wolfgank AI Error'' (fst (generate_text e p t s))
        \<longleftrightarrow> source (fst (attempt e p t s)) = ''Error'')"
proof (cases "source (fst (attempt e p t s)) = ''Error''")
  case True
  then have rep: "fst (generate_text e p t s)
      = error_report (now e) (final_error_message (error_message (fst (attempt e p t s))))
          (fallback_info (snd (attempt e p t s)))"
    by (simp add: fst_generate_text format_error)
  have "suffix end_of_report (error_report ts m info)" for ts m info
    unfolding error_report_def by (intro suffix_appendI) simp
  then show ?thesis
    using True by (simp add: rep end_of_report_def) (simp add: error_report_def)
next
  case False
  then have rep: "fst (generate_text e p t s)
      = branded_result t (source (fst (attempt e p t s))) (now e)
          (result_text (fst (attempt e p t s)))"
    by (simp add: fst_generate_text format_success)
  have "suffix end_of_report (branded_result tn src ts rt)" for tn src ts rt
    unfolding branded_result_def by (intro suffix_appendI) simp
  then show ?thesis
    using False by (simp add: rep end_of_report_def) (simp add: branded_result_def)
qed

theorem backend_exception_reported_witness:
  "ollama_available primary_up \<and> ollama_chat failing_env ''kopi'' = Inl ''boom''
   \<and> fst (generate_text failing_env ''kopi'' ''Keyword Hunter'' primary_up)
       = ''--- Wolfgank AI Error (2025-01-01 12:00:00) ---\<newline>\<newline>Error during text generation using Ollama (gemma3:1b): boom\<newline>Please check logs and model availability.\<newline>\<newline>--- End of Report ---''
   \<and> new_calls primary_up (snd (generate_text failing_env ''kopi'' ''Keyword Hunter'' primary_up))
       = [CallOllamaChat ''kopi'']
   \<and> errors_logged primary_up (snd (generate_text failing_env ''kopi'' ''Keyword Hunter'' primary_up))
       = [''Error during text generation via Ollama (gemma3:1b) for Keyword Hunter: boom'']
   \<and> \<not> ollama_available secondary_up \<and> TRANSFORMERS_AVAILABLE secondary_up
   \<and> hf_pipeline (snd (generate_text failing_env ''kopi'' ''Keyword Hunter'' secondary_up)) = Some 7
   \<and> py_bool failing_env 7 \<and> hf_invoke failing_env 7 ''kopi'' = Inl ''boom''
   \<and> backend_calls secondary_up
        (snd (generate_text failing_env ''kopi'' ''Keyword Hunter'' secondary_up))
       = [CallHfPipeline ''kopi'']
   \<and> errors_logged secondary_up
        (snd (generate_text failing_env ''kopi'' ''Keyword Hunter'' secondary_up))
       = [''Error during text generation via Hugging Face (google/gemma-2b) for Keyword Hunter: boom'']"
proof -
  have p: "ollama_available primary_up \<and> ollama_chat failing_env ''kopi'' = Inl ''boom''"
    by (simp add: primary_up_eval failing_env_def demo_env_def)
  have q: "\<not> ollama_available secondary_up \<and> TRANSFORMERS_AVAILABLE secondary_up
      \<and> hf_pipeline (snd (generate_text failing_env ''kopi'' ''Keyword Hunter'' secondary_up)) = Some 7
      \<and> py_bool failing_env 7 \<and> hf_invoke failing_env 7 ''kopi'' = Inl ''boom''"
    by (simp add: secondary_up_eval secondary_up_generate_pipeline failing_env_def demo_env_def)
  have i: "fallback_info (snd (generate_text failing_env ''kopi'' ''Keyword Hunter'' primary_up)) = []"
    by (simp add: fallback_info_def snd_generate_text attempt_primary primary_up_eval)
  have n: "now failing_env = ''2025-01-01 12:00:00''"
    by (simp add: failing_env_def demo_env_def)
  from p q i n
    backend_exception_reported
      [of primary_up failing_env "''kopi''" "''Keyword Hunter''" "''boom''" 7]
    backend_exception_reported
      [of secondary_up failing_env "''kopi''" "''Keyword Hunter''" "''boom''" 7]
  show ?thesis by simp
qed

theorem success_banner_witness:
  "source (fst (attempt demo_env ''kopi'' ''Keyword Hunter'' primary_up)) \<noteq> ''Error''
   \<and> fst (generate_text demo_env ''kopi'' ''Keyword Hunter'' primary_up)
       = ''--- Wolfgank AI [Keyword Hunter] Result (Ollama (gemma3:1b) @ 2025-01-01 12:00:00) ---\<newline>\<newline>kopi susu\<newline>\<newline>--- End of Report ---''"
proof -
  have out: "fst (attempt demo_env ''kopi'' ''Keyword Hunter'' primary_up)
               = \<lparr>source = ''Ollama (gemma3:1b)'', result_text = ''kopi susu'',
                  error_message = None\<rparr>"
    by (simp add: attempt_def Let_def primary_up_eval demo_env_def source_labels)
  then have h: "source (fst (attempt demo_env ''kopi'' ''Keyword Hunter'' primary_up)) \<noteq> ''Error''"
    by simp
  have n: "now demo_env = ''2025-01-01 12:00:00''" by (simp add: demo_env_def)
  from h success_banner[OF h] out n show ?thesis by simp
qed

text \<open>
  C7, as stated, does not hold. With Ollama available and \<open>ollama.chat\<close> raising, the
  error report carries no fallback text at all. And after a start-up without Ollama and
  without the transformers library, the fallback text is the status line built from
  \<open>GENERATION_METHOD\<close>, not the text chosen by the two flags.
\<close>

theorem fallback_status_counterexample:
  "source (fst (attempt failing_env ''kopi'' ''Keyword Hunter'' primary_up)) = ''Error''
   \<and> GENERATION_METHOD (snd (generate_text failing_env ''kopi'' ''Keyword Hunter'' primary_up))
       = ''Ollama (gemma3:1b)''
   \<and> fallback_info (snd (generate_text failing_env ''kopi'' ''Keyword Hunter'' primary_up)) = []
   \<and> fst (generate_text failing_env ''kopi'' ''Keyword Hunter'' primary_up)
       = ''--- Wolfgank AI Error (2025-01-01 12:00:00) ---\<newline>\<newline>Error during text generation using Ollama (gemma3:1b): boom\<newline>Please check logs and model availability.\<newline>\<newline>--- End of Report ---''
   \<and> \<not> ollama_available (startup offline_env (module_globals False))
   \<and> \<not> TRANSFORMERS_AVAILABLE (startup offline_env (module_globals False))
   \<and> source (fst (attempt demo_env ''kopi'' ''Keyword Hunter''
                     (startup offline_env (module_globals False)))) = ''Error''
   \<and> fallback_info (snd (generate_text demo_env ''kopi'' ''Keyword Hunter''
                            (startup offline_env (module_globals False))))
       = '' Fallback Status: Error: Transformers Missing.''"
proof -
  have o: "ollama_available primary_up" by (simp add: primary_up_eval)
  have r: "ollama_chat failing_env ''kopi'' = Inl ''boom''"
    by (simp add: failing_env_def demo_env_def)
  have i: "fallback_info (snd (attempt failing_env ''kopi'' ''Keyword Hunter'' primary_up)) = []"
    by (simp add: fallback_info_def attempt_primary primary_up_eval)
  have n: "now failing_env = ''2025-01-01 12:00:00''"
    by (simp add: failing_env_def demo_env_def)
  let ?s = "startup offline_env (module_globals False)"
  have f: "\<not> ollama_available ?s" "\<not> TRANSFORMERS_AVAILABLE ?s"
    by (simp_all add: startup_def Let_def offline_env_def demo_env_def module_globals_def)
  have g: "GENERATION_METHOD ?s = ''Error: Transformers Missing''"
    by (simp add: startup_def Let_def offline_env_def demo_env_def module_globals_def
        initialize_hf_pipeline_def)
  have j: "fallback_info (snd (attempt demo_env ''kopi'' ''Keyword Hunter'' ?s))
             = '' Fallback Status: Error: Transformers Missing.''"
    by (simp add: no_library_outcome[OF f] fallback_info_def g)
  have k: "source (fst (attempt demo_env ''kopi'' ''Keyword Hunter'' ?s)) = ''Error''"
    by (simp add: no_library_outcome[OF f])
  show ?thesis
    using i n f j k
    by (simp add: fst_generate_text snd_generate_text primary_raises(1)[OF o r]
        attempt_primary(3)[OF o] primary_up_eval format_error final_error_message_def
        error_report_def end_of_report_def source_labels)
qed

theorem error_banner_witness:
  "source (fst (attempt demo_env ''kopi'' ''Keyword Hunter'' (module_globals False))) = ''Error''
   \<and> fst (generate_text demo_env ''kopi'' ''Keyword Hunter'' (module_globals False))
       = ''--- Wolfgank AI Error (2025-01-01 12:00:00) ---\<newline>\<newline>Error: Ollama is unavailable and the Transformers library is not installed. Cannot generate text. Fallback attempted but Transformers library is missing.\<newline>Please check logs and model availability.\<newline>\<newline>--- End of Report ---''"
proof -
  have f: "\<not> ollama_available (module_globals False)"
    "\<not> TRANSFORMERS_AVAILABLE (module_globals False)"
    by (simp_all add: module_globals_def)
  have out: "fst (attempt demo_env ''kopi'' ''Keyword Hunter'' (module_globals False))
               = \<lparr>source = ''Error'', result_text = [],
                  error_message = Some msg_no_transformers\<rparr>"
    by (simp add: no_library_outcome[OF f])
  then have h: "source (fst (attempt demo_env ''kopi'' ''Keyword Hunter'' (module_globals False)))
                  = ''Error''"
    by simp
  have g: "GENERATION_METHOD
             (snd (generate_text demo_env ''kopi'' ''Keyword Hunter'' (module_globals False)))
           = ''None''"
    by (simp add: snd_generate_text no_library_outcome[OF f]) (simp add: module_globals_def)
  have n: "now demo_env = ''2025-01-01 12:00:00''" by (simp add: demo_env_def)
  from error_banner[OF h] out g n f show ?thesis
    by (simp add: message_texts)
qed

theorem failure_causes_distinguished_witness:
  "\<not> ollama_available (module_globals False) \<and> \<not> TRANSFORMERS_AVAILABLE (module_globals False)
   \<and> sublist ''the Transformers library is not installed''
        (fst (generate_text demo_env ''kopi'' ''Keyword Hunter'' (module_globals False)))
   \<and> \<not> ollama_available (module_globals True) \<and> TRANSFORMERS_AVAILABLE (module_globals True)
   \<and> hf_pipeline (module_globals True) = None \<and> pipeline_new broken_env = Inl ''no weights''
   \<and> error_message (fst (attempt broken_env ''kopi'' ''Keyword Hunter'' (module_globals True)))
       = Some ''Error: Failed to initialize Hugging Face fallback model (google/gemma-2b).''
   \<and> hf_pipeline (snd (generate_text falsy_env ''kopi'' ''Keyword Hunter'' (module_globals True)))
       = Some 7
   \<and> \<not> py_bool falsy_env 7
   \<and> error_message (fst (attempt falsy_env ''kopi'' ''Keyword Hunter'' (module_globals True)))
       = Some ''Error: Hugging Face pipeline is not available after initialization attempt.''"
proof -
  have a: "\<not> ollama_available (module_globals False) \<and> \<not> TRANSFORMERS_AVAILABLE (module_globals False)"
    by (simp add: module_globals_def)
  have b: "\<not> ollama_available (module_globals True) \<and> TRANSFORMERS_AVAILABLE (module_globals True)
      \<and> hf_pipeline (module_globals True) = None \<and> pipeline_new broken_env = Inl ''no weights''"
    by (simp add: module_globals_def broken_env_def demo_env_def)
  have c: "\<not> ollama_available (module_globals True) \<and> TRANSFORMERS_AVAILABLE (module_globals True)
      \<and> hf_pipeline (snd (generate_text falsy_env ''kopi'' ''Keyword Hunter'' (module_globals True)))
          = Some 7
      \<and> \<not> py_bool falsy_env 7"
    by (simp add: snd_generate_text attempt_pipeline ensure_pipeline_unfold
        initialize_hf_pipeline_def Let_def module_globals_def falsy_env_def demo_env_def)
  from a b c
    failure_causes_distinguished
      [of "module_globals False" demo_env "''kopi''" "''Keyword Hunter''" "''no weights''" 7]
    failure_causes_distinguished
      [of "module_globals True" broken_env "''kopi''" "''Keyword Hunter''" "''no weights''" 7]
    failure_causes_distinguished
      [of "module_globals True" falsy_env "''kopi''" "''Keyword Hunter''" "''no weights''" 7]
  show ?thesis by simp
qed

theorem banner_frame_witness:
  "prefix ''--- Wolfgank AI'' (fst (generate_text demo_env ''kopi'' ''Keyword Hunter'' primary_up))
   \<and> suffix ''--- End of Report ---''
        (fst (generate_text demo_env ''kopi'' ''Keyword Hunter'' primary_up))
   \<and> \<not> prefix ''--- Wolfgank AI Error''
          (fst (generate_text demo_env ''kopi'' ''Keyword Hunter'' primary_up))
   \<and> prefix ''--- Wolfgank AI Error''
        (fst (generate_text demo_env ''kopi'' ''Keyword Hunter'' (module_globals False)))"
proof -
  have 1: "source (fst (attempt demo_env ''kopi'' ''Keyword Hunter'' primary_up)) \<noteq> ''Error''"
    by (simp add: attempt_def Let_def primary_up_eval demo_env_def source_labels)
  have 2: "source (fst (attempt demo_env ''kopi'' ''Keyword Hunter'' (module_globals False)))
             = ''Error''"
    by (simp add: attempt_def module_globals_def)
  from 1 2
    banner_frame[of demo_env "''kopi''" "''Keyword Hunter''" primary_up]
    banner_frame[of demo_env "''kopi''" "''Keyword Hunter''" "module_globals False"]
  show ?thesis by simp
qed

section \<open>The request handlers\<close>

lemma respond_unfold:
  "respond e prompt tool_name s
     = (wrap_result (fst (generate_text e prompt tool_name s)),
        snd (generate_text e prompt tool_name s))"
  by (simp add: respond_def wrap_result_def split: prod.splits)

lemma handler_tail:
  "(case generate_text e prompt tool_name s of (result, s') \<Rightarrow> (wrap_result result, s'))
     = respond e prompt tool_name s"
  by (simp add: respond_def wrap_result_def split: prod.splits)

lemma absent_or_falsy_get:
  "absent_or_falsy kvs k \<longleftrightarrow> \<not> py_truthy (dict_get kvs k JNull)"
  by (simp add: absent_or_falsy_def dict_get_def split: option.splits)

lemma keyword_hunter_object:
  "keyword_hunter e (Inr (JObj kvs)) s =
     (if absent_or_falsy kvs ''topic'' then ((400, ErrorBody ''Topik diperlukan.''), s)
      else respond e (keyword_prompt (fmt e (dict_get kvs ''topic'' JNull))) ''Keyword Hunter'' s)"
  by (simp add: keyword_hunter_def handler_tail absent_or_falsy_get)

lemma meta_master_object:
  "meta_master e (Inr (JObj kvs)) s =
     (if absent_or_falsy kvs ''content'' then ((400, ErrorBody ''Konten diperlukan.''), s)
      else (case slice_1000 (dict_get kvs ''content'' JNull) of
              Inl f \<Rightarrow> server_error ''/api/meta-master'' (exc_text e f) s
            | Inr content_head \<Rightarrow>
                respond e (meta_prompt (fmt e (dict_get kvs ''keywords'' (JStr [])))
                             (fmt e content_head)) ''Meta Master'' s))"
  by (simp add: meta_master_def handler_tail absent_or_falsy_get split: sum.splits)

lemma article_forge_object:
  "article_forge e (Inr (JObj kvs)) s =
     (if absent_or_falsy kvs ''topic'' then ((400, ErrorBody ''Topik diperlukan.''), s)
      else respond e (article_prompt (fmt e (dict_get kvs ''topic'' JNull))
                        (fmt e (dict_get kvs ''keywords'' (JStr [])))) ''Article Forge'' s)"
  by (simp add: article_forge_def handler_tail absent_or_falsy_get)

lemma seo_analyzer_object:
  "seo_analyzer e (Inr (JObj kvs)) s =
     (if absent_or_falsy kvs ''url'' then ((400, ErrorBody ''URL diperlukan.''), s)
      else respond e (analyzer_prompt (fmt e (dict_get kvs ''url'' JNull))) ''SEO Analyzer'' s)"
  by (simp add: seo_analyzer_def handler_tail absent_or_falsy_get)

lemma news_radar_object:
  "news_radar e (Inr (JObj kvs)) s =
     (if absent_or_falsy kvs ''search_query'' then
        ((400, ErrorBody ''Query pencarian diperlukan.''), s)
      else respond e (news_prompt (fmt e (dict_get kvs ''search_query'' JNull))) ''News Radar'' s)"
  by (simp add: news_radar_def handler_tail absent_or_falsy_get)

lemma initialize_logged:
  "\<exists>ls. logged (snd (initialize_hf_pipeline e s)) = logged s @ ls"
  by (auto simp add: initialize_hf_pipeline_def Let_def split: sum.splits)

lemma ensure_logged: "\<exists>ls. logged (snd (ensure_pipeline e s)) = logged s @ ls"
  using initialize_logged[of e s] by (auto simp add: ensure_pipeline_unfold)

text \<open>Every branch of \<open>generate_text\<close> logs, so a call never leaves the globals as they were.\<close>

lemma attempt_logs: "length (logged s) < length (logged (snd (attempt e p t s)))"
proof (cases "ollama_available s")
  case True
  then show ?thesis
    by (cases "ollama_chat e p") (simp_all add: attempt_def Let_def on_exception_simps)
next
  case False
  show ?thesis
  proof (cases "TRANSFORMERS_AVAILABLE s")
    case ta: True
    let ?s1 = "logging INFO (hf_attempt_line t) s"
    obtain ls where ls: "logged (snd (ensure_pipeline e ?s1)) = logged ?s1 @ ls"
      using ensure_logged[of e ?s1] by blast
    show ?thesis
      using False ta ls
      by (simp add: attempt_secondary Let_def on_exception_simps split: option.splits sum.splits)
  next
    case nota: False
    with False show ?thesis by (simp add: attempt_def)
  qed
qed

lemma generate_text_changes_globals: "snd (generate_text e p t s) \<noteq> s"
proof
  assume "snd (generate_text e p t s) = s"
  then have "logged (snd (attempt e p t s)) = logged s" by (simp add: snd_generate_text)
  with attempt_logs[of s e p t] show False by simp
qed

lemma respond_error:
  assumes "source (fst (attempt e p t s)) = ''Error''"
  shows "fst (respond e p t s) = (500, ErrorBody (fst (generate_text e p t s)))"
proof -
  have "prefix error_marker (fst (generate_text e p t s))"
    using assms by (simp add: fst_generate_text format_error error_report_prefix)
  then have "sublist error_marker (fst (generate_text e p t s))"
    by (rule prefix_imp_sublist)
  then show ?thesis by (simp add: respond_unfold wrap_result_def)
qed

lemma dict_lookup_without: "dict_lookup (without k kvs) k = None"
  by (auto simp add: dict_lookup_def without_def map_of_eq_None_iff)

lemma absent_after_without: "absent_or_falsy (without k kvs) k"
  by (simp add: absent_or_falsy_def dict_lookup_without)

lemma falsy_is_absent_or_falsy:
  "dict_lookup kvs k = Some v \<Longrightarrow> \<not> py_truthy v \<Longrightarrow> absent_or_falsy kvs k"
  by (simp add: absent_or_falsy_def)

text \<open>
  C9. A required field that is present with a value Python counts as false gets the same
  answer as a body without the field: status 400 with the handler's missing-field
  message, and the globals untouched. Since every call of \<open>generate_text\<close> changes the
  globals (it logs), no generation took place.
\<close>

theorem falsy_field_rejected:
  "(dict_lookup kvs ''topic'' = Some v \<and> \<not> py_truthy v \<longrightarrow>
      keyword_hunter e (Inr (JObj kvs)) s = ((400, ErrorBody ''Topik diperlukan.''), s)
      \<and> keyword_hunter e (Inr (JObj kvs)) s
          = keyword_hunter e (Inr (JObj (without ''topic'' kvs))) s
      \<and> article_forge e (Inr (JObj kvs)) s = ((400, ErrorBody ''Topik diperlukan.''), s)
      \<and> article_forge e (Inr (JObj kvs)) s
          = article_forge e (Inr (JObj (without ''topic'' kvs))) s)
   \<and> (dict_lookup kvs ''content'' = Some v \<and> \<not> py_truthy v \<longrightarrow>
      meta_master e (Inr (JObj kvs)) s = ((400, ErrorBody ''Konten diperlukan.''), s)
      \<and> meta_master e (Inr (JObj kvs)) s
          = meta_master e (Inr (JObj (without ''content'' kvs))) s)
   \<and> (dict_lookup kvs ''url'' = Some v \<and> \<not> py_truthy v \<longrightarrow>
      seo_analyzer e (Inr (JObj kvs)) s = ((400, ErrorBody ''URL diperlukan.''), s)
      \<and> seo_analyzer e (Inr (JObj kvs)) s
          = seo_analyzer e (Inr (JObj (without ''url'' kvs))) s)
   \<and> (dict_lookup kvs ''search_query'' = Some v \<and> \<not> py_truthy v \<longrightarrow>
      news_radar e (Inr (JObj kvs)) s = ((400, ErrorBody ''Query pencarian diperlukan.''), s)
      \<and> news_radar e (Inr (JObj kvs)) s
          = news_radar e (Inr (JObj (without ''search_query'' kvs))) s)
   \<and> (\<forall>p t. snd (generate_text e p t s) \<noteq> s)"
  by (simp add: keyword_hunter_object meta_master_object article_forge_object
      seo_analyzer_object news_radar_object falsy_is_absent_or_falsy absent_after_without
      generate_text_changes_globals)

text \<open>
  C8, amended. For a body that is a JSON object, each of the five handlers answers 400
  with its missing-field message, leaving the globals untouched, when the required field
  is absent or false in Python's sense. Otherwise (in \<open>meta_master\<close>, when the content
  can be sliced) it calls \<open>generate_text\<close> once on the handler's prompt and answers 500
  with the returned string under \<open>error\<close> if the string contains the marker, and 200 with
  the string under \<open>result\<close> if not. A call that ends with source \<open>Error\<close> is always
  answered with 500.
\<close>

theorem handler_responses:
  "(absent_or_falsy kvs ''topic'' \<longrightarrow>
      keyword_hunter e (Inr (JObj kvs)) s = ((400, ErrorBody ''Topik diperlukan.''), s)
      \<and> article_forge e (Inr (JObj kvs)) s = ((400, ErrorBody ''Topik diperlukan.''), s))
   \<and> (\<not> absent_or_falsy kvs ''topic'' \<longrightarrow>
      keyword_hunter e (Inr (JObj kvs)) s
        = respond e (keyword_prompt (fmt e (dict_get kvs ''topic'' JNull))) ''Keyword Hunter'' s
      \<and> article_forge e (Inr (JObj kvs)) s
        = respond e (article_prompt (fmt e (dict_get kvs ''topic'' JNull))
                       (fmt e (dict_get kvs ''keywords'' (JStr [])))) ''Article Forge'' s)
   \<and> (absent_or_falsy kvs ''content'' \<longrightarrow>
      meta_master e (Inr (JObj kvs)) s = ((400, ErrorBody ''Konten diperlukan.''), s))
   \<and> (\<not> absent_or_falsy kvs ''content''
        \<and> slice_1000 (dict_get kvs ''content'' JNull) = Inr content_head \<longrightarrow>
      meta_master e (Inr (JObj kvs)) s
        = respond e (meta_prompt (fmt e (dict_get kvs ''keywords'' (JStr [])))
                       (fmt e content_head)) ''Meta Master'' s)
   \<and> (absent_or_falsy kvs ''url'' \<longrightarrow>
      seo_analyzer e (Inr (JObj kvs)) s = ((400, ErrorBody ''URL diperlukan.''), s))
   \<and> (\<not> absent_or_falsy kvs ''url'' \<longrightarrow>
      seo_analyzer e (Inr (JObj kvs)) s
        = respond e (analyzer_prompt (fmt e (dict_get kvs ''url'' JNull))) ''SEO Analyzer'' s)
   \<and> (absent_or_falsy kvs ''search_query'' \<longrightarrow>
      news_radar e (Inr (JObj kvs)) s = ((400, ErrorBody ''Query pencarian diperlukan.''), s))
   \<and> (\<not> absent_or_falsy kvs ''search_query'' \<longrightarrow>
      news_radar e (Inr (JObj kvs)) s
        = respond e (news_prompt (fmt e (dict_get kvs ''search_query'' JNull))) ''News Radar'' s)
   \<and> (\<forall>p t. snd (generate_text e p t s) \<noteq> s)
   \<and> (\<forall>p t. source (fst (attempt e p t s)) = ''Error'' \<longrightarrow>
          fst (respond e p t s) = (500, ErrorBody (fst (generate_text e p t s))))"
  by (simp add: keyword_hunter_object meta_master_object article_forge_object
      seo_analyzer_object news_radar_object generate_text_changes_globals respond_error)

text \<open>
  C8, as stated, does not hold. A body with \<open>topic\<close> present but empty is answered with
  400, not with the outcome of \<open>generate_text\<close>; a body that is a JSON list has no
  \<open>topic\<close> and is answered with 500; and a body whose \<open>content\<close> is a number is answered
  with the generic 500 of the handler, again without a call of \<open>generate_text\<close>.
\<close>

theorem required_field_counterexample:
  "dict_lookup [(''topic'', JStr [])] ''topic'' = Some (JStr [])
   \<and> keyword_hunter demo_env (Inr (JObj [(''topic'', JStr [])])) primary_up
       = ((400, ErrorBody ''Topik diperlukan.''), primary_up)
   \<and> fst (keyword_hunter demo_env (Inr (JArr [])) primary_up)
       = (500, ErrorBody ''Terjadi kesalahan server: fault'')
   \<and> dict_lookup [(''content'', JNum 5)] ''content'' = Some (JNum 5)
   \<and> fst (meta_master demo_env (Inr (JObj [(''content'', JNum 5)])) primary_up)
       = (500, ErrorBody ''Terjadi kesalahan server: fault'')
   \<and> snd (meta_master demo_env (Inr (JObj [(''content'', JNum 5)])) primary_up)
       = logging ERROR ''Error in /api/meta-master endpoint: fault'' primary_up"
  by (simp add: keyword_hunter_def meta_master_def dict_lookup_def dict_get_def server_error_def
      demo_env_def)

lemma primary_up_outcome:
  "fst (attempt demo_env p t primary_up)
     = \<lparr>source = ''Ollama (gemma3:1b)'', result_text = ''kopi susu'', error_message = None\<rparr>"
  by (simp add: attempt_def Let_def primary_up_eval demo_env_def source_labels)

lemma primary_up_report:
  "fst (generate_text demo_env p t primary_up)
     = ''--- Wolfgank AI ['' @ t
         @ ''] Result (Ollama (gemma3:1b) @ 2025-01-01 12:00:00) ---\<newline>\<newline>kopi susu\<newline>\<newline>--- End of Report ---''"
proof -
  have n: "now demo_env = ''2025-01-01 12:00:00''" by (simp add: demo_env_def)
  show ?thesis
    by (simp add: fst_generate_text primary_up_outcome format_success branded_result_def
        end_of_report_def n)
qed

lemma primary_up_failing_outcome:
  "source (fst (attempt failing_env p t primary_up)) = ''Error''"
  by (simp add: attempt_def Let_def primary_up_eval failing_env_def demo_env_def
      on_exception_simps)

lemma primary_up_failing_report:
  "fst (generate_text failing_env p t primary_up)
     = ''--- Wolfgank AI Error (2025-01-01 12:00:00) ---\<newline>\<newline>Error during text generation using Ollama (gemma3:1b): boom\<newline>Please check logs and model availability.\<newline>\<newline>--- End of Report ---''"
proof -
  have o: "ollama_available primary_up" by (simp add: primary_up_eval)
  have r: "ollama_chat failing_env p = Inl ''boom''"
    by (simp add: failing_env_def demo_env_def)
  have i: "fallback_info (snd (attempt failing_env p t primary_up)) = []"
    by (simp add: fallback_info_def attempt_primary primary_up_eval)
  have n: "now failing_env = ''2025-01-01 12:00:00''"
    by (simp add: failing_env_def demo_env_def)
  show ?thesis
    using i n
    by (simp add: fst_generate_text primary_raises(1)[OF o r] format_error
        final_error_message_def error_report_def end_of_report_def source_labels)
qed

lemma primary_up_respond:
  "fst (respond demo_env p ''Keyword Hunter'' primary_up)
     = (200, ResultBody ''--- Wolfgank AI [Keyword Hunter] Result (Ollama (gemma3:1b) @ 2025-01-01 12:00:00) ---\<newline>\<newline>kopi susu\<newline>\<newline>--- End of Report ---'')"
  "fst (fst (respond demo_env p ''Meta Master'' primary_up)) = 200"
  "fst (fst (respond demo_env p ''Article Forge'' primary_up)) = 200"
  "fst (fst (respond demo_env p ''SEO Analyzer'' primary_up)) = 200"
  "fst (fst (respond demo_env p ''News Radar'' primary_up)) = 200"
  by (simp_all add: respond_unfold wrap_result_def primary_up_report error_marker_def
      sublist_Cons_right)

theorem falsy_field_rejected_witness:
  "dict_lookup [(''topic'', JStr [])] ''topic'' = Some (JStr []) \<and> \<not> py_truthy (JStr [])
   \<and> keyword_hunter demo_env (Inr (JObj [(''topic'', JStr [])])) primary_up
       = ((400, ErrorBody ''Topik diperlukan.''), primary_up)
   \<and> article_forge demo_env (Inr (JObj [(''topic'', JStr [])])) primary_up
       = ((400, ErrorBody ''Topik diperlukan.''), primary_up)
   \<and> dict_lookup [(''content'', JStr [])] ''content'' = Some (JStr [])
   \<and> meta_master demo_env (Inr (JObj [(''content'', JStr [])])) primary_up
       = ((400, ErrorBody ''Konten diperlukan.''), primary_up)
   \<and> dict_lookup [(''url'', JStr [])] ''url'' = Some (JStr [])
   \<and> seo_analyzer demo_env (Inr (JObj [(''url'', JStr [])])) primary_up
       = ((400, ErrorBody ''URL diperlukan.''), primary_up)
   \<and> dict_lookup [(''search_query'', JStr [])] ''search_query'' = Some (JStr [])
   \<and> news_radar demo_env (Inr (JObj [(''search_query'', JStr [])])) primary_up
       = ((400, ErrorBody ''Query pencarian diperlukan.''), primary_up)"
proof -
  have l: "dict_lookup [(''topic'', JStr [])] ''topic'' = Some (JStr [])"
    "dict_lookup [(''content'', JStr [])] ''content'' = Some (JStr [])"
    "dict_lookup [(''url'', JStr [])] ''url'' = Some (JStr [])"
    "dict_lookup [(''search_query'', JStr [])] ''search_query'' = Some (JStr [])"
    by (simp_all add: dict_lookup_def)
  have f: "\<not> py_truthy (JStr [])" by simp
  from l f
    falsy_field_rejected[of "[(''topic'', JStr [])]" "JStr []" demo_env primary_up]
    falsy_field_rejected[of "[(''content'', JStr [])]" "JStr []" demo_env primary_up]
    falsy_field_rejected[of "[(''url'', JStr [])]" "JStr []" demo_env primary_up]
    falsy_field_rejected[of "[(''search_query'', JStr [])]" "JStr []" demo_env primary_up]
  show ?thesis by simp
qed

theorem handler_responses_witness:
  "absent_or_falsy [] ''topic'' \<and> absent_or_falsy [] ''content'' \<and> absent_or_falsy [] ''url''
   \<and> absent_or_falsy [] ''search_query''
   \<and> keyword_hunter demo_env (Inr (JObj [])) primary_up
       = ((400, ErrorBody ''Topik diperlukan.''), primary_up)
   \<and> article_forge demo_env (Inr (JObj [])) primary_up
       = ((400, ErrorBody ''Topik diperlukan.''), primary_up)
   \<and> meta_master demo_env (Inr (JObj [])) primary_up
       = ((400, ErrorBody ''Konten diperlukan.''), primary_up)
   \<and> seo_analyzer demo_env (Inr (JObj [])) primary_up
       = ((400, ErrorBody ''URL diperlukan.''), primary_up)
   \<and> news_radar demo_env (Inr (JObj [])) primary_up
       = ((400, ErrorBody ''Query pencarian diperlukan.''), primary_up)
   \<and> \<not> absent_or_falsy [(''topic'', JStr ''kopi lokal'')] ''topic''
   \<and> fst (keyword_hunter demo_env (Inr (JObj [(''topic'', JStr ''kopi lokal'')])) primary_up)
       = (200, ResultBody ''--- Wolfgank AI [Keyword Hunter] Result (Ollama (gemma3:1b) @ 2025-01-01 12:00:00) ---\<newline>\<newline>kopi susu\<newline>\<newline>--- End of Report ---'')
   \<and> fst (fst (article_forge demo_env (Inr (JObj [(''topic'', JStr ''kopi lokal'')])) primary_up))
       = 200
   \<and> \<not> absent_or_falsy [(''content'', JStr ''isi'')] ''content''
   \<and> slice_1000 (dict_get [(''content'', JStr ''isi'')] ''content'' JNull) = Inr (JStr ''isi'')
   \<and> fst (fst (meta_master demo_env (Inr (JObj [(''content'', JStr ''isi'')])) primary_up)) = 200
   \<and> \<not> absent_or_falsy [(''url'', JStr ''https://kopi.id'')] ''url''
   \<and> fst (fst (seo_analyzer demo_env (Inr (JObj [(''url'', JStr ''https://kopi.id'')]))
                  primary_up)) = 200
   \<and> \<not> absent_or_falsy [(''search_query'', JStr ''kopi'')] ''search_query''
   \<and> fst (fst (news_radar demo_env (Inr (JObj [(''search_query'', JStr ''kopi'')])) primary_up))
       = 200
   \<and> source (fst (attempt failing_env (keyword_prompt ''kopi lokal'') ''Keyword Hunter''
                     primary_up)) = ''Error''
   \<and> fst (keyword_hunter failing_env (Inr (JObj [(''topic'', JStr ''kopi lokal'')])) primary_up)
       = (500, ErrorBody ''--- Wolfgank AI Error (2025-01-01 12:00:00) ---\<newline>\<newline>Error during text generation using Ollama (gemma3:1b): boom\<newline>Please check logs and model availability.\<newline>\<newline>--- End of Report ---'')"
proof -
  have a: "absent_or_falsy [] ''topic''" "absent_or_falsy [] ''content''"
    "absent_or_falsy [] ''url''" "absent_or_falsy [] ''search_query''"
    by (simp_all add: absent_or_falsy_def dict_lookup_def)
  have b: "\<not> absent_or_falsy [(''topic'', JStr ''kopi lokal'')] ''topic''"
    "\<not> absent_or_falsy [(''content'', JStr ''isi'')] ''content''"
    "\<not> absent_or_falsy [(''url'', JStr ''https://kopi.id'')] ''url''"
    "\<not> absent_or_falsy [(''search_query'', JStr ''kopi'')] ''search_query''"
    by (simp_all add: absent_or_falsy_def dict_lookup_def)
  have c: "slice_1000 (dict_get [(''content'', JStr ''isi'')] ''content'' JNull) = Inr (JStr ''isi'')"
    by (simp add: dict_get_def dict_lookup_def)
  have d: "dict_get [(''topic'', JStr ''kopi lokal'')] ''topic'' JNull = JStr ''kopi lokal''"
    by (simp add: dict_get_def dict_lookup_def)
  have g: "fmt e (JStr x) = x" for e x by (simp add: fmt_def)
  have h: "source (fst (attempt failing_env (keyword_prompt ''kopi lokal'') ''Keyword Hunter''
                     primary_up)) = ''Error''"
    by (rule primary_up_failing_outcome)
  note t0 = handler_responses[of "[]" demo_env primary_up "JStr ''isi''"]
  note t1 = handler_responses
              [of "[(''topic'', JStr ''kopi lokal'')]" demo_env primary_up "JStr ''isi''"]
  note t2 = handler_responses[of "[(''content'', JStr ''isi'')]" demo_env primary_up "JStr ''isi''"]
  note t3 = handler_responses
              [of "[(''url'', JStr ''https://kopi.id'')]" demo_env primary_up "JStr ''isi''"]
  note t4 = handler_responses
              [of "[(''search_query'', JStr ''kopi'')]" demo_env primary_up "JStr ''isi''"]
  note t5 = handler_responses
              [of "[(''topic'', JStr ''kopi lokal'')]" failing_env primary_up "JStr ''isi''"]
  have s0: "keyword_hunter demo_env (Inr (JObj [])) primary_up
              = ((400, ErrorBody ''Topik diperlukan.''), primary_up)"
    "article_forge demo_env (Inr (JObj [])) primary_up
              = ((400, ErrorBody ''Topik diperlukan.''), primary_up)"
    "meta_master demo_env (Inr (JObj [])) primary_up
              = ((400, ErrorBody ''Konten diperlukan.''), primary_up)"
    "seo_analyzer demo_env (Inr (JObj [])) primary_up
              = ((400, ErrorBody ''URL diperlukan.''), primary_up)"
    "news_radar demo_env (Inr (JObj [])) primary_up
              = ((400, ErrorBody ''Query pencarian diperlukan.''), primary_up)"
    using a t0 by simp_all
  have s1: "fst (keyword_hunter demo_env (Inr (JObj [(''topic'', JStr ''kopi lokal'')])) primary_up)
       = (200, ResultBody ''--- Wolfgank AI [Keyword Hunter] Result (Ollama (gemma3:1b) @ 2025-01-01 12:00:00) ---\<newline>\<newline>kopi susu\<newline>\<newline>--- End of Report ---'')"
    "fst (fst (article_forge demo_env (Inr (JObj [(''topic'', JStr ''kopi lokal'')])) primary_up))
       = 200"
    using b(1) t1 by (simp_all add: primary_up_respond)
  have s2: "fst (fst (meta_master demo_env (Inr (JObj [(''content'', JStr ''isi'')])) primary_up))
              = 200"
    using b(2) c t2 by (simp add: primary_up_respond)
  have s3: "fst (fst (seo_analyzer demo_env (Inr (JObj [(''url'', JStr ''https://kopi.id'')]))
                  primary_up)) = 200"
    using b(3) t3 by (simp add: primary_up_respond)
  have s4: "fst (fst (news_radar demo_env (Inr (JObj [(''search_query'', JStr ''kopi'')]))
                  primary_up)) = 200"
    using b(4) t4 by (simp add: primary_up_respond)
  have s5: "fst (keyword_hunter failing_env (Inr (JObj [(''topic'', JStr ''kopi lokal'')]))
                   primary_up)
       = (500, ErrorBody ''--- Wolfgank AI Error (2025-01-01 12:00:00) ---\<newline>\<newline>Error during text generation using Ollama (gemma3:1b): boom\<newline>Please check logs and model availability.\<newline>\<newline>--- End of Report ---'')"
    using b(1) h t5 by (simp add: d g primary_up_failing_report)
  from a b c h s0 s1 s2 s3 s4 s5 show ?thesis by simp
qed

end
